theory Spec2Isabelle
  imports Complex_Main
begin

section \<open>Geometry analyzer (core/primitives.js)\<close>

text \<open>
  Exceptions of the JavaScript source are values: every place where the source would
  throw a \<^verbatim>\<open>TypeError\<close> (reading a property of \<^verbatim>\<open>undefined\<close> or \<^verbatim>\<open>null\<close>)
  is a branch that returns \<open>Inl TypeError\<close>.
\<close>

datatype error = TypeError

text \<open>
  A \<^verbatim>\<open>BufferGeometry\<close> as the analyzer reads it: \<open>index_array\<close> is
  \<^verbatim>\<open>geometry.index ? geometry.index.array : null\<close> and \<open>attr_position\<close> is
  \<^verbatim>\<open>geometry.attributes.position\<close> (absent is \<open>None\<close>); the position buffer is the
  list of its vertices, so \<^verbatim>\<open>position.count\<close> is its length.
\<close>

record 'v geometry =
  index_array :: "nat list option"
  attr_position :: "'v list option"

text \<open>Reading a JavaScript array: out of range gives \<^verbatim>\<open>undefined\<close>, here \<open>None\<close>.\<close>

definition js_index :: "'a list \<Rightarrow> nat \<Rightarrow> 'a option" where
  "js_index xs i = (if i < length xs then Some (xs ! i) else None)"

text \<open>
  \<^verbatim>\<open>for (let i = 0; i < n / 3; i++)\<close>: the loop visits, in ascending order, every
  \<open>i\<close> with \<open>3 * i < n\<close> (the bound \<open>n / 3\<close> is not rounded in the source).
\<close>

definition triangleLoop :: "nat \<Rightarrow> nat list" where
  "triangleLoop n = filter (\<lambda>i. 3 * i < n) [0..<n]"

text \<open>\<^verbatim>\<open>a < b\<close> on vertex indices that may be \<^verbatim>\<open>undefined\<close>: false unless both are numbers.\<close>

fun js_lt :: "nat option \<Rightarrow> nat option \<Rightarrow> bool" where
  "js_lt (Some a) (Some b) = (a < b)"
| "js_lt _ _ = False"

text \<open>
  \<^verbatim>\<open>getEdgeKey\<close> builds the string \<^verbatim>\<open>`${a}_${b}`\<close> or \<^verbatim>\<open>`${b}_${a}`\<close>. Two such
  strings are equal exactly when both components are, so the key is modelled as the pair;
  \<^verbatim>\<open>key.split('_').map(Number)\<close> gives the pair back (\<^verbatim>\<open>NaN\<close> for \<^verbatim>\<open>undefined\<close>,
  here \<open>None\<close>).
\<close>

type_synonym edge_key = "nat option \<times> nat option"

definition getEdgeKey :: "nat option \<Rightarrow> nat option \<Rightarrow> edge_key" where
  "getEdgeKey a b = (if js_lt a b then (a, b) else (b, a))"

record edgeData =
  count :: nat
  triangles :: "nat list"

text \<open>
  A JavaScript \<^verbatim>\<open>Map\<close> keeps its keys in insertion order; it is an association list
  with distinct keys. \<open>map_set\<close> is \<^verbatim>\<open>Map.set\<close>: an existing key keeps its place.
\<close>

fun map_set :: "'k \<Rightarrow> 'd \<Rightarrow> ('k \<times> 'd) list \<Rightarrow> ('k \<times> 'd) list" where
  "map_set k v [] = [(k, v)]"
| "map_set k v ((k', v') # m) =
     (if k' = k then (k, v) # m else (k', v') # map_set k v m)"

text \<open>The body of the \<^verbatim>\<open>forEach\<close> over the three edges of triangle \<open>i\<close>.\<close>

definition addEdgeOccurrence :: "edge_key \<Rightarrow> nat \<Rightarrow> (edge_key \<times> edgeData) list \<Rightarrow> (edge_key \<times> edgeData) list" where
  "addEdgeOccurrence key i edgeMap =
     (let m1 = (if map_of edgeMap key = None
                then map_set key \<lparr>count = 0, triangles = []\<rparr> edgeMap else edgeMap)
      in case map_of m1 key of
           None \<Rightarrow> m1
         | Some edgeData \<Rightarrow>
             map_set key (edgeData\<lparr>count := count edgeData + 1,
                                   triangles := triangles edgeData @ [i]\<rparr>) m1)"

text \<open>The vertex indices \<open>a\<close>, \<open>b\<close>, \<open>c\<close> of triangle \<open>i\<close>.\<close>

definition triangleVertices :: "'v geometry \<Rightarrow> nat \<Rightarrow> nat option \<times> nat option \<times> nat option" where
  "triangleVertices g i =
     (case index_array g of
        Some idx \<Rightarrow> (js_index idx (i * 3), js_index idx (i * 3 + 1), js_index idx (i * 3 + 2))
      | None \<Rightarrow> (Some (i * 3), Some (i * 3 + 1), Some (i * 3 + 2)))"

definition triangleEdgeKeys :: "'v geometry \<Rightarrow> nat \<Rightarrow> edge_key list" where
  "triangleEdgeKeys g i =
     (case triangleVertices g i of (a, b, c) \<Rightarrow> [getEdgeKey a b, getEdgeKey b c, getEdgeKey c a])"

definition addTriangle :: "'v geometry \<Rightarrow> nat \<Rightarrow> (edge_key \<times> edgeData) list \<Rightarrow> (edge_key \<times> edgeData) list" where
  "addTriangle g i edgeMap = fold (\<lambda>key m. addEdgeOccurrence key i m) (triangleEdgeKeys g i) edgeMap"

text \<open>
  \<^verbatim>\<open>index ? index.length / 3 : position.count / 3\<close>, as the number whose third bounds
  the loop; reading \<^verbatim>\<open>count\<close> of an absent position buffer throws.
\<close>

definition triangleCount3 :: "'v geometry \<Rightarrow> error + nat" where
  "triangleCount3 g =
     (case index_array g of
        Some idx \<Rightarrow> Inr (length idx)
      | None \<Rightarrow> (case attr_position g of None \<Rightarrow> Inl TypeError | Some pos \<Rightarrow> Inr (length pos)))"

text \<open>The first loop of \<^verbatim>\<open>buildEdgesFromGeometry\<close>: the edge map after all triangles.\<close>

definition buildEdgeMap :: "'v geometry \<Rightarrow> error + (edge_key \<times> edgeData) list" where
  "buildEdgeMap g =
     (case triangleCount3 g of
        Inl e \<Rightarrow> Inl e
      | Inr n \<Rightarrow> Inr (fold (addTriangle g) (triangleLoop n) []))"

text \<open>
  \<^verbatim>\<open>triangleToFaceMapFromGeometry\<close>. The vector arithmetic of the rendering library
  (\<^verbatim>\<open>subVectors\<close>, \<^verbatim>\<open>cross\<close>, \<^verbatim>\<open>normalize\<close>) is the parameter \<open>faceNormal\<close>, from the
  three vertices of a triangle to its normal; a vertex read out of range has
  \<^verbatim>\<open>undefined\<close> coordinates and is \<open>None\<close>. The face map is the object with keys
  \<open>0, 1, \<dots>\<close>, an association list.
\<close>

record ('v, 'n) face =
  materialIndex :: nat
  normal :: 'n
  vertices :: "'v option list"

definition getVertex :: "'v list \<Rightarrow> nat option \<Rightarrow> 'v option" where
  "getVertex pos vi = (case vi of None \<Rightarrow> None | Some k \<Rightarrow> js_index pos k)"

definition makeFace :: "('v option \<Rightarrow> 'v option \<Rightarrow> 'v option \<Rightarrow> 'n) \<Rightarrow> nat list option \<Rightarrow> 'v list \<Rightarrow> nat \<Rightarrow> ('v, 'n) face" where
  "makeFace faceNormal index pos i =
     (let vs = (case index of
                  Some idx \<Rightarrow> map (\<lambda>j. getVertex pos (js_index idx (i * 3 + j))) [0, 1, 2]
                | None \<Rightarrow> map (\<lambda>j. js_index pos (i * 3 + j)) [0, 1, 2])
      in \<lparr>materialIndex = 0,
          normal = faceNormal (vs ! 0) (vs ! 1) (vs ! 2),
          vertices = vs\<rparr>)"

definition triangleToFaceMapFromGeometry ::
  "('v option \<Rightarrow> 'v option \<Rightarrow> 'v option \<Rightarrow> 'n) \<Rightarrow> 'v geometry \<Rightarrow> (nat \<times> ('v, 'n) face) list" where
  "triangleToFaceMapFromGeometry faceNormal g =
     (case attr_position g of
        None \<Rightarrow> []
      | Some pos \<Rightarrow>
          map (\<lambda>i. (i, makeFace faceNormal (index_array g) pos i))
            (triangleLoop (case index_array g of Some idx \<Rightarrow> length idx | None \<Rightarrow> length pos)))"

text \<open>
  One step of the second loop: \<open>edges\<close> is the list built so far. \<^verbatim>\<open>angleTo\<close> of the
  rendering library is a parameter. \<^verbatim>\<open>faceMap[t].normal\<close> throws when the face map
  has no entry \<open>t\<close>.
\<close>

definition faceLookup :: "(nat \<times> ('v, 'n) face) list \<Rightarrow> nat option \<Rightarrow> error + ('v, 'n) face" where
  "faceLookup faceMap t =
     (case t of
        None \<Rightarrow> Inl TypeError
      | Some i \<Rightarrow> (case map_of faceMap i of None \<Rightarrow> Inl TypeError | Some f \<Rightarrow> Inr f))"

definition classifyEntry ::
  "('v option \<Rightarrow> 'v option \<Rightarrow> 'v option \<Rightarrow> 'n) \<Rightarrow> ('n \<Rightarrow> 'n \<Rightarrow> real) \<Rightarrow> 'v geometry \<Rightarrow> real
     \<Rightarrow> edge_key \<times> edgeData \<Rightarrow> edge_key list \<Rightarrow> error + edge_key list" where
  "classifyEntry faceNormal angleTo g thresholdAngle entry edges =
     (case entry of (key, d) \<Rightarrow>
        if count d = 1 then Inr (edges @ [key])
        else if count d = 2 then
          (let t1 = js_index (triangles d) 0; t2 = js_index (triangles d) 1;
               faceMap = triangleToFaceMapFromGeometry faceNormal g
           in case faceLookup faceMap t1 of
                Inl e \<Rightarrow> Inl e
              | Inr f1 \<Rightarrow>
                  (case faceLookup faceMap t2 of
                     Inl e \<Rightarrow> Inl e
                   | Inr f2 \<Rightarrow>
                       if angleTo (normal f1) (normal f2) > thresholdAngle
                       then Inr (edges @ [key]) else Inr edges))
        else Inr edges)"

fun classifyEntries ::
  "('v option \<Rightarrow> 'v option \<Rightarrow> 'v option \<Rightarrow> 'n) \<Rightarrow> ('n \<Rightarrow> 'n \<Rightarrow> real) \<Rightarrow> 'v geometry \<Rightarrow> real
     \<Rightarrow> (edge_key \<times> edgeData) list \<Rightarrow> edge_key list \<Rightarrow> error + edge_key list" where
  "classifyEntries faceNormal angleTo g th [] edges = Inr edges"
| "classifyEntries faceNormal angleTo g th (entry # rest) edges =
     (case classifyEntry faceNormal angleTo g th entry edges of
        Inl e \<Rightarrow> Inl e
      | Inr edges' \<Rightarrow> classifyEntries faceNormal angleTo g th rest edges')"

definition buildEdgesFromGeometry ::
  "('v option \<Rightarrow> 'v option \<Rightarrow> 'v option \<Rightarrow> 'n) \<Rightarrow> ('n \<Rightarrow> 'n \<Rightarrow> real) \<Rightarrow> 'v geometry \<Rightarrow> real
     \<Rightarrow> error + edge_key list" where
  "buildEdgesFromGeometry faceNormal angleTo g thresholdAngle =
     (case buildEdgeMap g of
        Inl e \<Rightarrow> Inl e
      | Inr edgeMap \<Rightarrow> classifyEntries faceNormal angleTo g thresholdAngle edgeMap [])"

text \<open>The triangles an edge key belongs to, in scan order.\<close>

definition geometryTriangles :: "'v geometry \<Rightarrow> nat list" where
  "geometryTriangles g =
     triangleLoop (case index_array g of
                     Some idx \<Rightarrow> length idx
                   | None \<Rightarrow> (case attr_position g of Some pos \<Rightarrow> length pos | None \<Rightarrow> 0))"

definition adjacentTriangles :: "'v geometry \<Rightarrow> edge_key \<Rightarrow> nat list" where
  "adjacentTriangles g key = filter (\<lambda>i. key \<in> set (triangleEdgeKeys g i)) (geometryTriangles g)"


text \<open>
  The occurrences of an edge key over the whole scan: triangle \<open>i\<close> is listed once for
  each of its three edge slots that canonicalises to the key.
\<close>

definition edgeOccurrences :: "'v geometry \<Rightarrow> edge_key \<Rightarrow> nat list" where
  "edgeOccurrences g key =
     concat (map (\<lambda>i. map (\<lambda>_. i) (filter (\<lambda>k. k = key) (triangleEdgeKeys g i))) (geometryTriangles g))"

text \<open>What an entry of the edge map becomes after the triangles \<open>ts\<close> were pushed onto it.\<close>

definition entryAfter :: "edgeData option \<Rightarrow> nat list \<Rightarrow> edgeData option" where
  "entryAfter old ts =
     (if ts = [] then old
      else Some (case old of
                   None \<Rightarrow> \<lparr>count = length ts, triangles = ts\<rparr>
                 | Some d \<Rightarrow> d\<lparr>count := count d + length ts, triangles := triangles d @ ts\<rparr>))"

text \<open>The test of the second loop on one entry, for a geometry with position buffer \<open>pos\<close>.\<close>

definition selectable ::
  "('v option \<Rightarrow> 'v option \<Rightarrow> 'v option \<Rightarrow> 'n) \<Rightarrow> ('n \<Rightarrow> 'n \<Rightarrow> real) \<Rightarrow> 'v geometry \<Rightarrow> 'v list \<Rightarrow> real
     \<Rightarrow> edgeData \<Rightarrow> bool" where
  "selectable fn ang g pos th d \<longleftrightarrow>
     count d = 1 \<or>
     (count d = 2 \<and>
      th < ang (normal (makeFace fn (index_array g) pos (triangles d ! 0)))
               (normal (makeFace fn (index_array g) pos (triangles d ! 1))))"

text \<open>A triangle is degenerate when two of its three vertex indices coincide.\<close>

definition nondegenerate :: "'v geometry \<Rightarrow> nat \<Rightarrow> bool" where
  "nondegenerate g i = (case triangleVertices g i of (a, b, c) \<Rightarrow> a \<noteq> b \<and> b \<noteq> c \<and> c \<noteq> a)"

definition triangleVertexList :: "'v geometry \<Rightarrow> nat \<Rightarrow> nat option list" where
  "triangleVertexList g i = (case triangleVertices g i of (a, b, c) \<Rightarrow> [a, b, c])"

subsection \<open>Sample geometries\<close>

text \<open>
  Concrete inputs. Vertices and normals are labels (natural numbers): the sample normal of
  a face is the label of its first vertex, and \<open>sampleAngle\<close> separates different
  normals by 2 radians. \<open>rightAngle\<close> is the value \<^verbatim>\<open>Vector3.angleTo\<close> returns for a
  zero-length normal, which is what \<^verbatim>\<open>normalize\<close> leaves for a triangle with a repeated
  vertex.
\<close>

definition sampleNormal :: "nat option \<Rightarrow> nat option \<Rightarrow> nat option \<Rightarrow> nat" where
  "sampleNormal v0 v1 v2 = (case v0 of Some p \<Rightarrow> p | None \<Rightarrow> 0)"

definition sampleAngle :: "nat \<Rightarrow> nat \<Rightarrow> real" where
  "sampleAngle n1 n2 = (if n1 = n2 then 0 else 2)"

definition rightAngle :: "nat \<Rightarrow> nat \<Rightarrow> real" where
  "rightAngle n1 n2 = pi / 2"

definition twoTriangles :: "nat geometry" where
  "twoTriangles = \<lparr>index_array = Some [0, 1, 2, 1, 3, 2], attr_position = Some [10, 20, 30, 40]\<rparr>"

definition degenerateTriangle :: "nat geometry" where
  "degenerateTriangle = \<lparr>index_array = Some [0, 0, 1], attr_position = Some [10, 20]\<rparr>"

definition singleTriangle :: "nat geometry" where
  "singleTriangle = \<lparr>index_array = None, attr_position = Some [10, 20, 30]\<rparr>"

definition apartTriangles :: "nat geometry" where
  "apartTriangles = \<lparr>index_array = Some [0, 1, 2, 3, 4, 5], attr_position = Some [10, 20, 30, 40, 50, 60]\<rparr>"

definition fanTriangles :: "nat geometry" where
  "fanTriangles = \<lparr>index_array = Some [0, 1, 2, 0, 1, 3, 0, 1, 4], attr_position = Some [10, 20, 30, 40, 50]\<rparr>"

definition noBuffers :: "nat geometry" where
  "noBuffers = \<lparr>index_array = None, attr_position = None\<rparr>"

definition indexOnly :: "nat geometry" where
  "indexOnly = \<lparr>index_array = Some [0, 1, 2], attr_position = None\<rparr>"

section \<open>Selection manager (three/selection.js)\<close>

text \<open>
  A material is an application material or a clone of the manager's highlight material
  that carries the texture map of the material it replaces. \<open>EmptySlot\<close> is the hole a
  JavaScript array gets when it is written beyond its end. The \<^verbatim>\<open>material\<close> property of
  a mesh is one material or an array of them.
\<close>

datatype material = Material nat | HighlightClone material | EmptySlot

datatype material_slot = Single material | Multi "material list"

text \<open>The auxiliary render nodes: a line along an edge, a mesh over one triangle.\<close>

datatype overlay = EdgeLine "nat \<times> nat" | FaceMesh nat

text \<open>
  A mesh as the selection manager uses it: its material, whether
  \<^verbatim>\<open>geometry.attributes.position\<close> is present, the two \<^verbatim>\<open>userData\<close> slots and the
  children added with \<^verbatim>\<open>object.add\<close>.
\<close>

record object3d =
  obj_material :: material_slot
  has_position :: bool
  edgeHighlight :: "overlay option"
  faceHighlight :: "overlay option"
  obj_children :: "overlay list"

datatype selection_type = ObjectSel | FaceSel | EdgeSel

record selection =
  sel_object :: "nat option"
  sel_type :: "selection_type option"
  sel_faceIndex :: "nat option"
  sel_edge :: "(nat \<times> nat) option"
  originalMaterial :: "material_slot option"
  originalFaceMaterials :: "(nat \<times> material) list"

subsection \<open>Object selection of the scene manager (core/SceneManager.js)\<close>

text \<open>
  The part of the scene manager that selection touches. \<^verbatim>\<open>this.selected\<close> starts as
  \<^verbatim>\<open>{ type: null, id: null }\<close>, whose \<^verbatim>\<open>object\<close> is undefined; \<^verbatim>\<open>clearSelection\<close>
  sets it to \<^verbatim>\<open>null\<close>, here \<open>None\<close>. \<open>transformControls\<close> is \<open>None\<close> until the gizmo
  is set up, then it holds the mesh it is attached to. \<open>transform\<close> is the field
  \<^verbatim>\<open>this.transform\<close> that \<^verbatim>\<open>attachTransformControl\<close> and \<^verbatim>\<open>detachTransformControl\<close>
  use; no statement of the class assigns it, so it is undefined (\<open>None\<close>) in every scene
  manager the constructor makes.
\<close>

record selected =
  selected_object :: "nat option"
  selected_originalMaterial :: "material_slot option"

record sceneSelection =
  selected :: "selected option"
  materials :: "nat \<Rightarrow> material_slot"
  transformControls :: "nat option option"
  transform :: "nat option option"

definition newSceneSelection :: "(nat \<Rightarrow> material_slot) \<Rightarrow> sceneSelection" where
  "newSceneSelection mats =
     \<lparr>selected = Some \<lparr>selected_object = None, selected_originalMaterial = None\<rparr>,
      materials = mats, transformControls = None, transform = None\<rparr>"

definition deselectObject :: "sceneSelection \<Rightarrow> error option \<times> sceneSelection" where
  "deselectObject s =
     (case selected s of
        None \<Rightarrow> (Some TypeError, s)
      | Some sel \<Rightarrow>
          (case selected_object sel of
             None \<Rightarrow> (None, s)
           | Some oid \<Rightarrow>
               (let s1 = (case selected_originalMaterial sel of
                            None \<Rightarrow> s
                          | Some original \<Rightarrow> s\<lparr>materials := (materials s)(oid := original)\<rparr>);
                    s2 = (case transformControls s1 of
                            None \<Rightarrow> s1
                          | Some attached \<Rightarrow> s1\<lparr>transformControls := Some None\<rparr>)
                in (None, s2\<lparr>selected := Some (sel\<lparr>selected_object := None,
                                                   selected_originalMaterial := None\<rparr>)\<rparr>))))"





text \<open>
  The manager. Meshes are shared, mutable objects: \<open>heap\<close> maps a reference to the
  current state of the mesh. \<open>selection\<close> is \<open>None\<close> while \<^verbatim>\<open>this.selection\<close> has
  never been assigned; \<open>mgr_originalMaterial\<close> is \<^verbatim>\<open>this.originalMaterial\<close>;
  \<open>disposed\<close> collects the overlays whose geometry was disposed;
  \<open>mgr_sceneManager\<close> is the scene manager handed to the constructor
  (\<^verbatim>\<open>this.sceneManager\<close>).
\<close>

record selectionManager =
  selection :: "selection option"
  mgr_originalMaterial :: "material_slot option"
  heap :: "nat \<Rightarrow> object3d"
  disposed :: "overlay list"
  mgr_sceneManager :: sceneSelection

text \<open>
  The constructor stores the scene manager and sets the materials, \<^verbatim>\<open>edgeThreshold\<close>,
  \<^verbatim>\<open>mouse\<close> and \<^verbatim>\<open>raycaster\<close>; it assigns neither \<^verbatim>\<open>this.selection\<close> nor
  \<^verbatim>\<open>this.originalMaterial\<close>. \<open>h\<close> is the state of the meshes at that time.
\<close>

definition newSelectionManager :: "sceneSelection \<Rightarrow> (nat \<Rightarrow> object3d) \<Rightarrow> selectionManager" where
  "newSelectionManager sm h =
     \<lparr>selection = None, mgr_originalMaterial = None, heap = h, disposed = [],
      mgr_sceneManager = sm\<rparr>"

text \<open>The record \<^verbatim>\<open>deselect\<close> resets the selection to.\<close>

definition emptySelection :: selection where
  "emptySelection =
     \<lparr>sel_object = None, sel_type = None, sel_faceIndex = None, sel_edge = None,
      originalMaterial = None, originalFaceMaterials = []\<rparr>"

text \<open>
  A method leaves the manager in some state and either completes (\<open>None\<close>) or throws: what
  it changed before the throw stays changed.
\<close>

type_synonym outcome = "error option \<times> selectionManager"

text \<open>\<^verbatim>\<open>array[i] = v\<close>: writing beyond the end extends the array.\<close>

definition js_array_set :: "material list \<Rightarrow> nat \<Rightarrow> material \<Rightarrow> material list" where
  "js_array_set xs i v =
     (if i < length xs then xs[i := v] else xs @ replicate (i - length xs) EmptySlot @ [v])"

text \<open>
  \<^verbatim>\<open>Object.entries(originalFaceMaterials).forEach(([index, material]) =>
  object.material[parseInt(index)] = material)\<close>. On a single material the assignment
  sets a property of the material object and leaves the mesh's material what it is.
\<close>

definition restoreFaceMaterials :: "(nat \<times> material) list \<Rightarrow> material_slot \<Rightarrow> material_slot" where
  "restoreFaceMaterials entries slot =
     (case slot of
        Single m \<Rightarrow> Single m
      | Multi ms \<Rightarrow> Multi (fold (\<lambda>(i, m) xs. js_array_set xs i m) entries ms))"

text \<open>
  \<^verbatim>\<open>object.remove(overlay); overlay.geometry.dispose()\<close>, guarded by the \<^verbatim>\<open>userData\<close>
  slot. \<^verbatim>\<open>deselect\<close> also deletes the slot; the highlight methods overwrite it later.
\<close>

definition dropEdgeHighlight :: "object3d \<times> overlay list \<Rightarrow> object3d \<times> overlay list" where
  "dropEdgeHighlight od =
     (case od of (obj, disp) \<Rightarrow>
        (case edgeHighlight obj of
           None \<Rightarrow> (obj, disp)
         | Some line \<Rightarrow> (obj\<lparr>obj_children := remove1 line (obj_children obj)\<rparr>, disp @ [line])))"

definition dropFaceHighlight :: "object3d \<times> overlay list \<Rightarrow> object3d \<times> overlay list" where
  "dropFaceHighlight od =
     (case od of (obj, disp) \<Rightarrow>
        (case faceHighlight obj of
           None \<Rightarrow> (obj, disp)
         | Some faceMesh \<Rightarrow> (obj\<lparr>obj_children := remove1 faceMesh (obj_children obj)\<rparr>, disp @ [faceMesh])))"

definition removeEdgeHighlight :: "object3d \<times> overlay list \<Rightarrow> object3d \<times> overlay list" where
  "removeEdgeHighlight od =
     (case dropEdgeHighlight od of (obj, disp) \<Rightarrow> (obj\<lparr>edgeHighlight := None\<rparr>, disp))"

definition removeFaceHighlight :: "object3d \<times> overlay list \<Rightarrow> object3d \<times> overlay list" where
  "removeFaceHighlight od =
     (case dropFaceHighlight od of (obj, disp) \<Rightarrow> (obj\<lparr>faceHighlight := None\<rparr>, disp))"

text \<open>\<^verbatim>\<open>deselect()\<close>. Destructuring \<^verbatim>\<open>this.selection\<close> throws when it is undefined.\<close>

definition deselect :: "selectionManager \<Rightarrow> outcome" where
  "deselect m =
     (case selection m of
        None \<Rightarrow> (Some TypeError, m)
      | Some sel \<Rightarrow>
          (case sel_object sel of
             None \<Rightarrow> (None, m)
           | Some oid \<Rightarrow>
               (let obj = heap m oid;
                    obj1 = (case originalMaterial sel of
                              None \<Rightarrow> obj
                            | Some (Multi original) \<Rightarrow>
                                obj\<lparr>obj_material :=
                                      restoreFaceMaterials (originalFaceMaterials sel) (obj_material obj)\<rparr>
                            | Some (Single original) \<Rightarrow> obj\<lparr>obj_material := Single original\<rparr>);
                    od = removeFaceHighlight (removeEdgeHighlight (obj1, disposed m))
                in (None, m\<lparr>heap := (heap m)(oid := fst od),
                             disposed := snd od,
                             selection := Some emptySelection\<rparr>))))"










subsection \<open>Sample meshes\<close>



text \<open>A manager whose \<^verbatim>\<open>selection\<close> field holds the empty record.\<close>

definition idleSelectionManager :: "sceneSelection \<Rightarrow> (nat \<Rightarrow> object3d) \<Rightarrow> selectionManager" where
  "idleSelectionManager sm h = (newSelectionManager sm h)\<lparr>selection := Some emptySelection\<rparr>"

section \<open>Edge picking of the scene manager (core/SceneManager.js)\<close>

text \<open>
  An entry of \<^verbatim>\<open>meta.edges\<close>. The analyzer produces pairs of vertex indices
  \<^verbatim>\<open>[a, b]\<close>; \<^verbatim>\<open>distanceToEdge\<close> reads \<^verbatim>\<open>edge.start\<close> and \<^verbatim>\<open>edge.end\<close>, which
  only an edge given by two points has.
\<close>

datatype 'p edge = IndexPair nat nat | Segment 'p 'p

text \<open>
  The first argument of \<^verbatim>\<open>distanceToEdge\<close>: \<^verbatim>\<open>raycastEdges\<close> passes the ray of a
  \<^verbatim>\<open>THREE.Raycaster\<close>, \<^verbatim>\<open>findClosestEdge\<close> (line 1169) passes the hit point, a
  \<^verbatim>\<open>THREE.Vector3\<close>.
\<close>

datatype ('p, 'r) ray_argument = Ray 'r | Point 'p

text \<open>
  \<^verbatim>\<open>distanceToEdge(ray, edge, object)\<close>. Its first statement,
  \<^verbatim>\<open>new Vector3().copy(edge.start)\<close>, throws on an index pair, whose \<^verbatim>\<open>start\<close> is
  undefined. For an edge with two end points both are taken to world space and put into
  a \<^verbatim>\<open>Line3\<close>; the next statement is \<^verbatim>\<open>ray.closestPointToLine(line, closestPoint)\<close>,
  and neither \<^verbatim>\<open>THREE.Ray\<close> nor \<^verbatim>\<open>THREE.Vector3\<close> has a method of that name, so the
  call throws. The \<^verbatim>\<open>return\<close> of the distance is never reached.
\<close>

definition distanceToEdge :: "('p, 'r) ray_argument \<Rightarrow> 'p edge \<Rightarrow> 'm \<Rightarrow> error + real" where
  "distanceToEdge ray edge matrixWorld =
     (case edge of
        IndexPair a b \<Rightarrow> Inl TypeError
      | Segment edge_start edge_end \<Rightarrow>
          (case ray of
             Ray r \<Rightarrow> Inl TypeError
           | Point p \<Rightarrow> Inl TypeError))"

text \<open>An entry of the \<^verbatim>\<open>objects\<close> map as edge picking reads it: the mesh's world matrix and \<^verbatim>\<open>meta.edges || []\<close>.\<close>

record ('p, 'm) pickable =
  pick_id :: nat
  matrixWorld :: 'm
  pick_edges :: "'p edge list"

record ('p, 'm) edgeHit =
  hit_object :: nat
  hit_point :: 'p
  hit_edge :: "'p edge"
  hit_distance :: real

text \<open>\<^verbatim>\<open>this.edgeThreshold = 0.1\<close>, set by the constructor.\<close>

definition edgeThreshold :: real where
  "edgeThreshold = 1 / 10"

text \<open>
  The inner loop of \<^verbatim>\<open>raycastEdges\<close>. An exception of \<^verbatim>\<open>distanceToEdge\<close> leaves the
  loop. Behind it the source compares the distance with the threshold and at the first
  edge below it builds the result, with \<^verbatim>\<open>point: this.getClosestPointOnEdge(\<dots>)\<close>;
  the class defines no method of that name, so that call would throw too.
\<close>

fun raycastEdgesOf ::
  "'r \<Rightarrow> ('p, 'm) pickable \<Rightarrow> 'p edge list \<Rightarrow> error + ('p, 'm) edgeHit option" where
  "raycastEdgesOf ray meta [] = Inr None"
| "raycastEdgesOf ray meta (edge # edges) =
     (case distanceToEdge (Ray ray :: ('p, 'r) ray_argument) edge (matrixWorld meta) of
        Inl e \<Rightarrow> Inl e
      | Inr distance \<Rightarrow>
          if distance < edgeThreshold then Inl TypeError
          else raycastEdgesOf ray meta edges)"

fun raycastEdges ::
  "'r \<Rightarrow> ('p, 'm) pickable list \<Rightarrow> error + ('p, 'm) edgeHit option" where
  "raycastEdges ray [] = Inr None"
| "raycastEdges ray (meta # objects) =
     (case raycastEdgesOf ray meta (pick_edges meta) of
        Inl e \<Rightarrow> Inl e
      | Inr (Some hit) \<Rightarrow> Inr (Some hit)
      | Inr None \<Rightarrow> raycastEdges ray objects)"

text \<open>
  The class defines \<^verbatim>\<open>findClosestEdge\<close> twice. The definition of line 1169 is the later
  one and is the method the class has; \<open>findClosestEdgeLoop\<close> is its loop, with
  \<^verbatim>\<open>closestEdge\<close> and \<^verbatim>\<open>minDistance\<close> as accumulators.
\<close>

fun findClosestEdgeLoop ::
  "'p \<Rightarrow> 'm \<Rightarrow> 'p edge list \<Rightarrow> 'p edge option \<Rightarrow> real \<Rightarrow> error + 'p edge option" where
  "findClosestEdgeLoop point mw [] closestEdge minDistance = Inr closestEdge"
| "findClosestEdgeLoop point mw (edge # edges) closestEdge minDistance =
     (case distanceToEdge (Point point :: ('p, unit) ray_argument) edge mw of
        Inl e \<Rightarrow> Inl e
      | Inr distance \<Rightarrow>
          if distance < minDistance then findClosestEdgeLoop point mw edges (Some edge) distance
          else findClosestEdgeLoop point mw edges closestEdge minDistance)"

definition findClosestEdge :: "'p \<Rightarrow> ('p, 'm) pickable \<Rightarrow> error + 'p edge option" where
  "findClosestEdge point objectMeta =
     findClosestEdgeLoop point (matrixWorld objectMeta) (pick_edges objectMeta) None edgeThreshold"

text \<open>
  The definition of lines 731 to 777, which the later one replaces. It works on
  \<^verbatim>\<open>metadata.edges\<close> (index pairs) and \<^verbatim>\<open>metadata.vertices\<close>, in the object's local
  space: \<open>localPoint\<close> is the hit point under the inverse world matrix. The vector
  operations of the library are parameters.
\<close>

record 'p vectorLibrary =
  vec_sub :: "'p \<Rightarrow> 'p \<Rightarrow> 'p"
  vec_length :: "'p \<Rightarrow> real"
  vec_normalize :: "'p \<Rightarrow> 'p"
  vec_dot :: "'p \<Rightarrow> 'p \<Rightarrow> real"
  vec_add :: "'p \<Rightarrow> 'p \<Rightarrow> 'p"
  vec_scale :: "'p \<Rightarrow> real \<Rightarrow> 'p"
  vec_distance :: "'p \<Rightarrow> 'p \<Rightarrow> real"

definition localEdgeDistance :: "'p vectorLibrary \<Rightarrow> 'p \<Rightarrow> 'p \<Rightarrow> 'p \<Rightarrow> real" where
  "localEdgeDistance ops localPoint edge_start edge_end =
     (let edgeVector = vec_sub ops edge_end edge_start;
          pointVector = vec_sub ops localPoint edge_start;
          edgeLength = vec_length ops edgeVector;
          edgeDirection = vec_normalize ops edgeVector;
          t = max 0 (min edgeLength (vec_dot ops pointVector edgeDirection));
          closestPoint = vec_add ops edge_start (vec_scale ops edgeDirection t)
      in vec_distance ops localPoint closestPoint)"

text \<open>
  The loop; \<open>closestDistance\<close> starts at \<^verbatim>\<open>Infinity\<close>, here \<open>None\<close>. Reading a vertex
  out of range gives \<^verbatim>\<open>undefined\<close>, on which \<^verbatim>\<open>subVectors\<close> throws.
\<close>

fun findClosestEdgeLocalLoop ::
  "'p vectorLibrary \<Rightarrow> 'p \<Rightarrow> 'p list \<Rightarrow> (nat \<times> nat) list \<Rightarrow> (nat \<times> nat) option \<Rightarrow> real option
     \<Rightarrow> error + (nat \<times> nat) option" where
  "findClosestEdgeLocalLoop ops localPoint verts [] closestEdge closestDistance = Inr closestEdge"
| "findClosestEdgeLocalLoop ops localPoint verts (edge # edges) closestEdge closestDistance =
     (case (js_index verts (fst edge), js_index verts (snd edge)) of
        (Some edge_start, Some edge_end) \<Rightarrow>
          (let distance = localEdgeDistance ops localPoint edge_start edge_end
           in if distance < 1 / 10 \<and> (case closestDistance of None \<Rightarrow> True | Some c \<Rightarrow> distance < c)
              then findClosestEdgeLocalLoop ops localPoint verts edges (Some edge) (Some distance)
              else findClosestEdgeLocalLoop ops localPoint verts edges closestEdge closestDistance)
      | _ \<Rightarrow> Inl TypeError)"

definition findClosestEdgeLocal ::
  "'p vectorLibrary \<Rightarrow> 'p \<Rightarrow> 'p list \<Rightarrow> (nat \<times> nat) list \<Rightarrow> error + (nat \<times> nat) option" where
  "findClosestEdgeLocal ops localPoint verts edges =
     findClosestEdgeLocalLoop ops localPoint verts edges None None"

text \<open>
  The distance the loop computes for an edge whose vertices exist, and its test: below
  the threshold and below the closest distance so far.
\<close>

definition vertexDistance :: "'p vectorLibrary \<Rightarrow> 'p \<Rightarrow> 'p list \<Rightarrow> nat \<times> nat \<Rightarrow> real" where
  "vertexDistance ops localPoint verts edge =
     localEdgeDistance ops localPoint (verts ! fst edge) (verts ! snd edge)"

definition beats :: "real \<Rightarrow> real option \<Rightarrow> bool" where
  "beats x closestDistance \<longleftrightarrow> x < 1 / 10 \<and> (case closestDistance of None \<Rightarrow> True | Some c \<Rightarrow> x < c)"

subsection \<open>Sample objects for picking\<close>

text \<open>
  Points on a line (a point is a real number), the world matrix the identity. The first
  object has two edges given by their end points; the second has the index pairs the
  analyzer produces, as every object registered through the scene manager has.
\<close>

definition segmentObject :: "(real, unit) pickable" where
  "segmentObject =
     \<lparr>pick_id = 0, matrixWorld = (), pick_edges = [Segment (5 / 100) 1, Segment (1 / 100) 1]\<rparr>"

definition analysedObject :: "(real, unit) pickable" where
  "analysedObject = \<lparr>pick_id = 0, matrixWorld = (), pick_edges = [IndexPair 0 1, IndexPair 1 2]\<rparr>"

section \<open>Scene objects, export and import (core/SceneManager.js)\<close>

text \<open>
  Numbers are real numbers: a finite JavaScript number survives \<^verbatim>\<open>JSON.stringify\<close> and
  \<^verbatim>\<open>JSON.parse\<close> unchanged, so the document model carries the numbers themselves.
  \<^verbatim>\<open>Vector3.toArray\<close> gives three numbers, \<^verbatim>\<open>Euler.toArray\<close> three numbers and the
  rotation order.
\<close>

type_synonym vec3 = "real \<times> real \<times> real"

type_synonym euler = "real \<times> real \<times> real \<times> string"

datatype jsvalue = JNum real | JStr string | JBool bool

text \<open>
  A \<^verbatim>\<open>THREE.Shape\<close>: the path drawn with \<^verbatim>\<open>moveTo\<close> and \<^verbatim>\<open>lineTo\<close>, or the full
  circle \<^verbatim>\<open>absarc(0, 0, radius, 0, 2 * PI)\<close>. A geometry is the library constructor
  that built it; \<open>RotatedToGround\<close> is \<^verbatim>\<open>geometry.rotateX(-Math.PI / 2)\<close>.
\<close>

datatype shape = Path "(real \<times> real) list" | Arc real

datatype geometry3 =
    BoxGeometry jsvalue jsvalue jsvalue
  | SphereGeometry jsvalue jsvalue jsvalue
  | CylinderGeometry jsvalue jsvalue jsvalue jsvalue
  | ExtrudeGeometry shape "(string \<times> jsvalue) list"
  | RotatedToGround geometry3

record mesh =
  uuid :: nat
  mesh_name :: string
  mesh_position :: vec3
  mesh_rotation :: euler
  mesh_scale :: vec3
  mesh_geometry :: "geometry3 option"
  mesh_material :: "material_slot option"
  userData :: "(string \<times> string) list"

text \<open>
  An entry of the \<^verbatim>\<open>objects\<close> map. Its \<^verbatim>\<open>faces\<close> and \<^verbatim>\<open>edges\<close> are what the geometry
  analyzer returns for the mesh's geometry; export and import do not read them and they
  are left out here.
\<close>

record sceneObject =
  meta_id :: nat
  meta_mesh :: mesh
  meta_type :: string
  meta_params :: "(string \<times> jsvalue) list"

text \<open>What the scene graph and the graphics resources see, in order.\<close>

datatype event =
    SceneAdd nat
  | SceneRemove nat
  | GeometryDispose nat
  | MaterialDispose nat material

text \<open>
  The scene manager as export and import use it: the \<^verbatim>\<open>objects\<close> map in insertion
  order, the meshes in the scene, the events so far, and the identifier the next
  mesh gets (the library draws a fresh \<^verbatim>\<open>uuid\<close> for every mesh).
\<close>

record sceneManager =
  objects :: "(nat \<times> sceneObject) list"
  scene_children :: "nat list"
  events :: "event list"
  next_uuid :: nat

definition newSceneManager :: sceneManager where
  "newSceneManager = \<lparr>objects = [], scene_children = [], events = [], next_uuid = 0\<rparr>"

text \<open>\<^verbatim>\<open>new THREE.Mesh(geometry, material)\<close> with its position and name set.\<close>

definition newMesh :: "nat \<Rightarrow> string \<Rightarrow> vec3 \<Rightarrow> geometry3 \<Rightarrow> material \<Rightarrow> mesh" where
  "newMesh u name position geometry mat =
     \<lparr>uuid = u, mesh_name = name, mesh_position = position,
      mesh_rotation = (0, 0, 0, ''XYZ''), mesh_scale = (1, 1, 1),
      mesh_geometry = Some geometry, mesh_material = Some (Single mat), userData = []\<rparr>"

definition sceneAdd :: "nat \<Rightarrow> sceneManager \<Rightarrow> sceneManager" where
  "sceneAdd u s = s\<lparr>scene_children := scene_children s @ [u], events := events s @ [SceneAdd u]\<rparr>"

text \<open>A destructuring default: the value of the key, or the default when the key is absent.\<close>

definition param :: "(string \<times> jsvalue) list \<Rightarrow> string \<Rightarrow> jsvalue \<Rightarrow> jsvalue" where
  "param ps key dflt = (case map_of ps key of None \<Rightarrow> dflt | Some v \<Rightarrow> v)"

text \<open>
  The common tail of \<^verbatim>\<open>addBox\<close>, \<^verbatim>\<open>addSphere\<close>, \<^verbatim>\<open>addCylinder\<close> and
  \<^verbatim>\<open>addExtrude\<close>: add the mesh to the scene, register the entry under the mesh's
  \<^verbatim>\<open>uuid\<close>, return the entry.
\<close>

definition register :: "sceneManager \<Rightarrow> mesh \<Rightarrow> string \<Rightarrow> (string \<times> jsvalue) list \<Rightarrow> sceneObject \<times> sceneManager" where
  "register s m type ps =
     (let s1 = sceneAdd (uuid m) (s\<lparr>next_uuid := Suc (next_uuid s)\<rparr>);
          meta = \<lparr>meta_id = uuid m, meta_mesh = m, meta_type = type, meta_params = ps\<rparr>
      in (meta, s1\<lparr>objects := map_set (uuid m) meta (objects s1)\<rparr>))"

text \<open>
  \<^verbatim>\<open>addBox({ width = 1, height = 1, depth = 1, name = 'Box', position = [0, 0, 0] })\<close>:
  \<open>args\<close> holds the numeric keys of the argument object, \<open>name\<close> and \<open>position\<close> are
  its two other keys (\<open>None\<close> when undefined).
\<close>

definition addBox :: "sceneManager \<Rightarrow> (string \<times> jsvalue) list \<Rightarrow> string option \<Rightarrow> vec3 option \<Rightarrow> sceneObject \<times> sceneManager" where
  "addBox s args name position =
     (let width = param args ''width'' (JNum 1);
          height = param args ''height'' (JNum 1);
          depth = param args ''depth'' (JNum 1);
          m = newMesh (next_uuid s) (case name of None \<Rightarrow> ''Box'' | Some n \<Rightarrow> n)
                (case position of None \<Rightarrow> (0, 0, 0) | Some p \<Rightarrow> p)
                (BoxGeometry width height depth) (Material 0x8888ff)
      in register s m ''Box'' [(''width'', width), (''height'', height), (''depth'', depth)])"

definition addSphere :: "sceneManager \<Rightarrow> (string \<times> jsvalue) list \<Rightarrow> string option \<Rightarrow> vec3 option \<Rightarrow> sceneObject \<times> sceneManager" where
  "addSphere s args name position =
     (let radius = param args ''radius'' (JNum 1);
          widthSegments = param args ''widthSegments'' (JNum 32);
          heightSegments = param args ''heightSegments'' (JNum 16);
          m = newMesh (next_uuid s) (case name of None \<Rightarrow> ''Sphere'' | Some n \<Rightarrow> n)
                (case position of None \<Rightarrow> (0, 0, 0) | Some p \<Rightarrow> p)
                (SphereGeometry radius widthSegments heightSegments) (Material 0xff8888)
      in register s m ''Sphere''
           [(''radius'', radius), (''widthSegments'', widthSegments), (''heightSegments'', heightSegments)])"

definition addCylinder :: "sceneManager \<Rightarrow> (string \<times> jsvalue) list \<Rightarrow> string option \<Rightarrow> vec3 option \<Rightarrow> sceneObject \<times> sceneManager" where
  "addCylinder s args name position =
     (let radiusTop = param args ''radiusTop'' (JNum 1);
          radiusBottom = param args ''radiusBottom'' (JNum 1);
          height = param args ''height'' (JNum 2);
          radialSegments = param args ''radialSegments'' (JNum 16);
          m = newMesh (next_uuid s) (case name of None \<Rightarrow> ''Cylinder'' | Some n \<Rightarrow> n)
                (case position of None \<Rightarrow> (0, 0, 0) | Some p \<Rightarrow> p)
                (CylinderGeometry radiusTop radiusBottom height radialSegments) (Material 0x88ff88)
      in register s m ''Cylinder''
           [(''radiusTop'', radiusTop), (''radiusBottom'', radiusBottom), (''height'', height),
            (''radialSegments'', radialSegments)])"

text \<open>
  \<^verbatim>\<open>addExtrude(shape, settings = {})\<close>: \<open>settings\<close> holds the keys of the settings object
  other than \<^verbatim>\<open>name\<close> and \<^verbatim>\<open>position\<close>, which are the next two arguments.
\<close>

definition addExtrude :: "sceneManager \<Rightarrow> shape \<Rightarrow> (string \<times> jsvalue) list \<Rightarrow> string option \<Rightarrow> vec3 option \<Rightarrow> sceneObject \<times> sceneManager" where
  "addExtrude s sh settings name position =
     (let extrudeSettings =
            [(''steps'', JNum 2),
             (''depth'', param settings ''amount'' (JNum 1)),
             (''bevelEnabled'', param settings ''bevelEnabled'' (JBool True)),
             (''bevelThickness'', param settings ''bevelThickness'' (JNum (1 / 10))),
             (''bevelSize'', param settings ''bevelSize'' (JNum (1 / 10))),
             (''bevelSegments'', JNum 1)];
          m = newMesh (next_uuid s) (case name of None \<Rightarrow> ''Extruded'' | Some n \<Rightarrow> n)
                (case position of None \<Rightarrow> (0, 0, 0) | Some p \<Rightarrow> p)
                (ExtrudeGeometry sh extrudeSettings) (Material 0x88ffff)
      in register s m ''Extruded'' settings)"

text \<open>
  \<^verbatim>\<open>addObject({ mesh, type, params = {} })\<close> for a mesh built elsewhere (\<open>None\<close>: no mesh
  given). The mesh is added to the scene unless the scene is its parent already.
\<close>

definition addObject :: "sceneManager \<Rightarrow> mesh option \<Rightarrow> string \<Rightarrow> (string \<times> jsvalue) list \<Rightarrow> sceneObject option \<times> sceneManager" where
  "addObject s m type ps =
     (case m of
        None \<Rightarrow> (None, s)
      | Some msh \<Rightarrow>
          (let s1 = (if uuid msh \<in> set (scene_children s) then s else sceneAdd (uuid msh) s);
               meta = \<lparr>meta_id = uuid msh, meta_mesh = msh, meta_type = type, meta_params = ps\<rparr>
           in (Some meta, s1\<lparr>objects := map_set (uuid msh) meta (objects s1)\<rparr>)))"

subsection \<open>The scene document\<close>

text \<open>
  One element of the \<^verbatim>\<open>objects\<close> array of a document; a key that is absent is \<open>None\<close>.
\<close>

record objectData =
  od_type :: string
  od_name :: "string option"
  od_uuid :: "nat option"
  od_position :: "vec3 option"
  od_rotation :: "euler option"
  od_scale :: "vec3 option"
  od_params :: "(string \<times> jsvalue) list option"
  od_userData :: "(string \<times> string) list option"

text \<open>
  The \<^verbatim>\<open>objects\<close> key of a document: absent (or falsy), present but not an array, or an
  array. The argument of \<^verbatim>\<open>importScene\<close> is a document, or a string that
  \<^verbatim>\<open>JSON.parse\<close> rejects.
\<close>

datatype objects_field = Missing | NotArray | Objects "objectData list"

datatype document = Unparsable | Document objects_field

definition exportObject :: "sceneObject \<Rightarrow> objectData" where
  "exportObject meta =
     \<lparr>od_type = meta_type meta,
      od_name = Some (mesh_name (meta_mesh meta)),
      od_uuid = Some (uuid (meta_mesh meta)),
      od_position = Some (mesh_position (meta_mesh meta)),
      od_rotation = Some (mesh_rotation (meta_mesh meta)),
      od_scale = Some (mesh_scale (meta_mesh meta)),
      od_params = Some (meta_params meta),
      od_userData = Some (userData (meta_mesh meta))\<rparr>"

definition exportScene :: "sceneManager \<Rightarrow> document" where
  "exportScene s = Document (Objects (map (\<lambda>(id, meta). exportObject meta) (objects s)))"

text \<open>The first loop of \<^verbatim>\<open>importScene\<close>, for one entry, and the whole of it with \<^verbatim>\<open>objects.clear()\<close>.\<close>

definition disposeEvents :: "sceneObject \<Rightarrow> event list" where
  "disposeEvents meta =
     (let m = meta_mesh meta
      in [SceneRemove (uuid m)]
         @ (case mesh_geometry m of None \<Rightarrow> [] | Some g \<Rightarrow> [GeometryDispose (uuid m)])
         @ (case mesh_material m of
              None \<Rightarrow> []
            | Some (Multi ms) \<Rightarrow> map (MaterialDispose (uuid m)) ms
            | Some (Single mat) \<Rightarrow> [MaterialDispose (uuid m) mat]))"

definition discardObject :: "sceneObject \<Rightarrow> sceneManager \<Rightarrow> sceneManager" where
  "discardObject meta s =
     s\<lparr>scene_children := removeAll (uuid (meta_mesh meta)) (scene_children s),
       events := events s @ disposeEvents meta\<rparr>"

definition clearObjects :: "sceneManager \<Rightarrow> sceneManager" where
  "clearObjects s = (fold discardObject (map snd (objects s)) s)\<lparr>objects := []\<rparr>"

text \<open>
  The body of the second loop. The \<^verbatim>\<open>switch\<close> knows three types and has no default;
  for any other type \<^verbatim>\<open>meta\<close> stays undefined and the three \<^verbatim>\<open>if (meta && \<dots>)\<close> do
  nothing. The mesh of the entry is the mesh in the scene, so what is assigned to
  \<^verbatim>\<open>meta.mesh\<close> shows in the map.
\<close>

definition setTransform :: "objectData \<Rightarrow> mesh \<Rightarrow> mesh" where
  "setTransform objData m =
     (let m1 = (case od_rotation objData of None \<Rightarrow> m | Some r \<Rightarrow> m\<lparr>mesh_rotation := r\<rparr>);
          m2 = (case od_scale objData of None \<Rightarrow> m1 | Some sc \<Rightarrow> m1\<lparr>mesh_scale := sc\<rparr>)
      in (case od_userData objData of None \<Rightarrow> m2 | Some u \<Rightarrow> m2\<lparr>userData := u\<rparr>))"

definition importObject :: "objectData \<Rightarrow> sceneManager \<Rightarrow> sceneManager" where
  "importObject objData s =
     (let position = Some (case od_position objData of None \<Rightarrow> (0, 0, 0) | Some p \<Rightarrow> p);
          args = (case od_params objData of None \<Rightarrow> [] | Some ps \<Rightarrow> ps);
          created =
            (if od_type objData = ''Box'' then Some (addBox s args (od_name objData) position)
             else if od_type objData = ''Sphere'' then Some (addSphere s args (od_name objData) position)
             else if od_type objData = ''Cylinder'' then Some (addCylinder s args (od_name objData) position)
             else None)
      in case created of
           None \<Rightarrow> s
         | Some (meta, s1) \<Rightarrow>
             s1\<lparr>objects := map_set (meta_id meta)
                               (meta\<lparr>meta_mesh := setTransform objData (meta_mesh meta)\<rparr>) (objects s1)\<rparr>)"

text \<open>
  \<^verbatim>\<open>importScene(json)\<close>: the result and the scene manager afterwards. An exception of
  \<^verbatim>\<open>JSON.parse\<close> is caught and gives \<^verbatim>\<open>false\<close>.
\<close>

definition importScene :: "sceneManager \<Rightarrow> document \<Rightarrow> bool \<times> sceneManager" where
  "importScene s json =
     (case json of
        Unparsable \<Rightarrow> (False, s)
      | Document Missing \<Rightarrow> (False, s)
      | Document NotArray \<Rightarrow> (False, s)
      | Document (Objects objs) \<Rightarrow> (True, fold importObject objs (clearObjects s)))"

text \<open>What the round trip compares, and the types the \<^verbatim>\<open>switch\<close> of the import knows.\<close>

definition transformOf :: "sceneObject \<Rightarrow> string \<times> vec3 \<times> euler \<times> vec3" where
  "transformOf meta =
     (meta_type meta, mesh_position (meta_mesh meta), mesh_rotation (meta_mesh meta),
      mesh_scale (meta_mesh meta))"

definition knownType :: "string \<Rightarrow> bool" where
  "knownType t \<longleftrightarrow> t = ''Box'' \<or> t = ''Sphere'' \<or> t = ''Cylinder''"

fun isSceneAdd :: "event \<Rightarrow> bool" where
  "isSceneAdd (SceneAdd u) = True"
| "isSceneAdd _ = False"

section \<open>Sketch mode (core/SketchMode.js)\<close>

datatype sketch_mode = NONE | RECTANGLE | CIRCLE

text \<open>
  The wireframe preview: the five corner points of the rectangle loop, or the circle
  around the start point (32 segments) with its radius.
\<close>

datatype preview = RectanglePreview "vec3 list" | CirclePreview vec3 real

record sketchMode =
  sk_mode :: sketch_mode
  startPoint :: "vec3 option"
  sk_preview :: "preview option"
  gridSize :: real
  sk_manager :: sceneManager

definition newSketchMode :: "sceneManager \<Rightarrow> sketchMode" where
  "newSketchMode mgr =
     \<lparr>sk_mode = NONE, startPoint = None, sk_preview = None, gridSize = 1 / 2, sk_manager = mgr\<rparr>"

definition clearPreview :: "sketchMode \<Rightarrow> sketchMode" where
  "clearPreview sk = sk\<lparr>sk_preview := None\<rparr>"

definition disable :: "sketchMode \<Rightarrow> sketchMode" where
  "disable sk = (clearPreview (sk\<lparr>sk_mode := NONE\<rparr>))\<lparr>startPoint := None\<rparr>"

definition enable :: "sketchMode \<Rightarrow> sketch_mode \<Rightarrow> sketchMode" where
  "enable sk mode = (if sk_mode sk \<noteq> NONE then disable sk else sk)\<lparr>sk_mode := mode\<rparr>"

text \<open>
  \<^verbatim>\<open>Math.round(value / gridSize) * gridSize\<close>. \<^verbatim>\<open>Math.round\<close> rounds to the nearest
  integer, a half upwards: it is \<open>\<lfloor>x + 1/2\<rfloor>\<close>, which is \<^const>\<open>round\<close>.
\<close>

definition snapToGrid :: "real \<Rightarrow> real \<Rightarrow> real" where
  "snapToGrid g v = real_of_int (round (v / g)) * g"

text \<open>
  \<^verbatim>\<open>getIntersectionPoint(x, y)\<close>. The ray through the pointer and its intersection with
  the ground plane come from the rendering library: \<open>hit\<close> is what
  \<^verbatim>\<open>ray.intersectPlane\<close> found (\<open>None\<close>: the ray misses the plane).
\<close>

definition getIntersectionPoint :: "sketchMode \<Rightarrow> vec3 option \<Rightarrow> vec3 option" where
  "getIntersectionPoint sk hit =
     (case hit of
        None \<Rightarrow> None
      | Some (x, y, z) \<Rightarrow> Some (snapToGrid (gridSize sk) x, y, snapToGrid (gridSize sk) z))"

text \<open>\<^verbatim>\<open>Vector3.distanceTo\<close>.\<close>

definition distance3 :: "vec3 \<Rightarrow> vec3 \<Rightarrow> real" where
  "distance3 a b =
     (case (a, b) of ((ax, ay, az), (bx, by, bz)) \<Rightarrow>
        sqrt ((ax - bx)\<^sup>2 + (ay - by)\<^sup>2 + (az - bz)\<^sup>2))"

definition updatePreview :: "sketchMode \<Rightarrow> vec3 \<Rightarrow> sketchMode" where
  "updatePreview sk currentPoint =
     (case startPoint sk of
        None \<Rightarrow> sk
      | Some (sx, sy, sz) \<Rightarrow>
          (case currentPoint of (cx, cy, cz) \<Rightarrow>
             (let sk1 = clearPreview sk
              in if sk_mode sk1 = RECTANGLE
                 then sk1\<lparr>sk_preview := Some (RectanglePreview
                        [(sx, 0, sz), (cx, 0, sz), (cx, 0, cz), (sx, 0, cz), (sx, 0, sz)])\<rparr>
                 else if sk_mode sk1 = CIRCLE
                 then sk1\<lparr>sk_preview := Some (CirclePreview (sx, sy, sz)
                        (distance3 (sx, sy, sz) (cx, cy, cz)))\<rparr>
                 else sk1)))"

text \<open>
  \<^verbatim>\<open>extrudeShape(shape, position)\<close>: the mesh gets the next \<^verbatim>\<open>uuid\<close>, is added to the
  scene and handed to \<^verbatim>\<open>addObject\<close> of the scene manager.
\<close>

definition extrudeShape :: "sketchMode \<Rightarrow> shape \<Rightarrow> vec3 \<Rightarrow> sketchMode" where
  "extrudeShape sk sh position =
     (let mgr = sk_manager sk;
          geometry = RotatedToGround (ExtrudeGeometry sh [(''depth'', JNum 1), (''bevelEnabled'', JBool False)]);
          m = newMesh (next_uuid mgr) [] position geometry (Material 0x8888ff);
          mgr1 = sceneAdd (uuid m) (mgr\<lparr>next_uuid := Suc (next_uuid mgr)\<rparr>);
          added = addObject mgr1 (Some m) (if sk_mode sk = RECTANGLE then ''Rectangle'' else ''Circle'') []
      in sk\<lparr>sk_manager := snd added\<rparr>)"

definition createRectangle :: "sketchMode \<Rightarrow> vec3 \<Rightarrow> sketchMode" where
  "createRectangle sk endPoint =
     (case (startPoint sk, endPoint) of
        (Some (sx, sy, sz), (ex, ey, ez)) \<Rightarrow>
          (let width = \<bar>ex - sx\<bar>; depth = \<bar>ez - sz\<bar>
           in if width < 1 / 10 \<or> depth < 1 / 10 then sk
              else extrudeShape sk
                     (Path [(0, 0), (width, 0), (width, depth), (0, depth), (0, 0)])
                     (min sx ex, 0, min sz ez))
      | (None, e) \<Rightarrow> sk)"

definition createCircle :: "sketchMode \<Rightarrow> vec3 \<Rightarrow> sketchMode" where
  "createCircle sk endPoint =
     (case startPoint sk of
        Some (sx, sy, sz) \<Rightarrow>
          (let radius = distance3 (sx, sy, sz) endPoint
           in if radius < 1 / 10 then sk else extrudeShape sk (Arc radius) (sx, 0, sz))
      | None \<Rightarrow> sk)"

definition createShape :: "sketchMode \<Rightarrow> vec3 \<Rightarrow> sketchMode" where
  "createShape sk endPoint =
     (if startPoint sk = None then sk
      else
        (let sk1 = (if sk_mode sk = RECTANGLE then createRectangle sk endPoint
                    else if sk_mode sk = CIRCLE then createCircle sk endPoint
                    else sk)
         in (clearPreview sk1)\<lparr>startPoint := None\<rparr>))"

text \<open>The pointer handlers; the argument is the ground-plane hit of the pointer's ray.\<close>

definition onPointerDown :: "sketchMode \<Rightarrow> vec3 option \<Rightarrow> sketchMode" where
  "onPointerDown sk hit =
     (if sk_mode sk = NONE then sk
      else (case getIntersectionPoint sk hit of
              None \<Rightarrow> sk
            | Some point \<Rightarrow> sk\<lparr>startPoint := Some point\<rparr>))"

definition onPointerMove :: "sketchMode \<Rightarrow> vec3 option \<Rightarrow> sketchMode" where
  "onPointerMove sk hit =
     (if sk_mode sk = NONE \<or> startPoint sk = None then sk
      else (case getIntersectionPoint sk hit of
              None \<Rightarrow> sk
            | Some point \<Rightarrow> updatePreview sk point))"

definition onPointerUp :: "sketchMode \<Rightarrow> vec3 option \<Rightarrow> sketchMode" where
  "onPointerUp sk hit =
     (if sk_mode sk = NONE \<or> startPoint sk = None then sk
      else (case getIntersectionPoint sk hit of
              None \<Rightarrow> (clearPreview sk)\<lparr>startPoint := None\<rparr>
            | Some point \<Rightarrow> createShape sk point))"

text \<open>
  The footprint of an extruded path: the extents of the path in its two coordinates.
  Turning the geometry onto the ground plane keeps them.
\<close>

definition extent :: "real list \<Rightarrow> real" where
  "extent xs = (case xs of [] \<Rightarrow> 0 | x # rest \<Rightarrow> fold max rest x - fold min rest x)"

fun footprint :: "geometry3 \<Rightarrow> (real \<times> real) option" where
  "footprint (RotatedToGround g) = footprint g"
| "footprint (ExtrudeGeometry (Path pts) settings) = Some (extent (map fst pts), extent (map snd pts))"
| "footprint g = None"

definition objectFootprint :: "sceneObject \<Rightarrow> (real \<times> real) option" where
  "objectFootprint meta =
     (case mesh_geometry (meta_mesh meta) of None \<Rightarrow> None | Some g \<Rightarrow> footprint g)"

text \<open>The identifier of the next mesh is not yet a key of the \<^verbatim>\<open>objects\<close> map.\<close>

definition uuidFresh :: "sceneManager \<Rightarrow> bool" where
  "uuidFresh s \<longleftrightarrow> next_uuid s \<notin> set (map fst (objects s))"

subsection \<open>Auxiliary notions and sample scenes\<close>

text \<open>Every key of the \<^verbatim>\<open>objects\<close> map was handed out before.\<close>

definition keysBelow :: "sceneManager \<Rightarrow> bool" where
  "keysBelow s \<longleftrightarrow> list_all (\<lambda>k. k < next_uuid s) (map fst (objects s))"

text \<open>
  What the import makes of one element of a document: its type, and its position,
  rotation and scale, with the values a new mesh has where the element gives none.
\<close>

definition importedTransform :: "objectData \<Rightarrow> string \<times> vec3 \<times> euler \<times> vec3" where
  "importedTransform d =
     (od_type d,
      (case od_position d of None \<Rightarrow> (0, 0, 0) | Some p \<Rightarrow> p),
      (case od_rotation d of None \<Rightarrow> (0, 0, 0, ''XYZ'') | Some r \<Rightarrow> r),
      (case od_scale d of None \<Rightarrow> (1, 1, 1) | Some sc \<Rightarrow> sc))"

definition squareShape :: shape where
  "squareShape = Path [(0, 0), (1, 0), (1, 1), (0, 1), (0, 0)]"

text \<open>A scene with one object made by \<^verbatim>\<open>addExtrude(shape)\<close>.\<close>

definition extrudedScene :: sceneManager where
  "extrudedScene = snd (addExtrude newSceneManager squareShape [] None None)"

text \<open>Sketch mode armed for rectangles on an empty scene, and the scene after the drag from (0, 0) to (2, 3).\<close>

definition armedSketch :: sketchMode where
  "armedSketch = enable (newSketchMode newSceneManager) RECTANGLE"

definition sketchedScene :: sceneManager where
  "sketchedScene =
     sk_manager (onPointerUp (onPointerDown armedSketch (Some (0, 0, 0))) (Some (2, 0, 3)))"

text \<open>A scene with a box and a sphere, and a document with an element of unknown type between two known ones.\<close>

definition boxSphereScene :: sceneManager where
  "boxSphereScene =
     snd (addSphere (snd (addBox newSceneManager [(''width'', JNum 2)] None (Some (1, 2, 3))))
            [] (Some ''ball'') None)"

definition plainElement :: "string \<Rightarrow> objectData" where
  "plainElement t =
     \<lparr>od_type = t, od_name = None, od_uuid = None, od_position = None, od_rotation = None,
      od_scale = None, od_params = None, od_userData = None\<rparr>"

definition mixedDocument :: document where
  "mixedDocument =
     Document (Objects [plainElement ''Box'', plainElement ''Torus'',
                        (plainElement ''Cylinder'')\<lparr>od_position := Some (4, 5, 6)\<rparr>])"


section \<open>The edge map and the edge list\<close>

subsection \<open>The insertion-ordered map\<close>

lemma map_of_map_set: "map_of (map_set k v m) = (map_of m)(k \<mapsto> v)"
  by (induction m) (auto simp: fun_eq_iff)

lemma keys_map_set:
  "map fst (map_set k v m) = (if k \<in> fst ` set m then map fst m else map fst m @ [k])"
proof (induction m)
  case Nil
  show ?case by simp
next
  case (Cons p m)
  obtain k' v' where p: "p = (k', v')" by (cases p)
  show ?case
  proof (cases "k' = k")
    case True
    then show ?thesis by (simp add: p)
  next
    case False
    then show ?thesis using Cons.IH by (simp add: p)
  qed
qed

lemma distinct_map_set: "distinct (map fst m) \<Longrightarrow> distinct (map fst (map_set k v m))"
  by (simp add: keys_map_set)

lemma map_of_addEdgeOccurrence:
  "map_of (addEdgeOccurrence k i m) =
     (map_of m)(k \<mapsto> (case map_of m k of
                        None \<Rightarrow> \<lparr>count = 1, triangles = [i]\<rparr>
                      | Some d \<Rightarrow> d\<lparr>count := count d + 1, triangles := triangles d @ [i]\<rparr>))"
  by (auto simp: addEdgeOccurrence_def Let_def map_of_map_set fun_eq_iff split: option.splits)

lemma distinct_addEdgeOccurrence:
  "distinct (map fst m) \<Longrightarrow> distinct (map fst (addEdgeOccurrence k i m))"
  by (auto simp: addEdgeOccurrence_def Let_def intro!: distinct_map_set split: option.splits)

lemma entryAfter_step:
  "entryAfter (Some (case old of None \<Rightarrow> \<lparr>count = 1, triangles = [i]\<rparr>
                     | Some d \<Rightarrow> d\<lparr>count := count d + 1, triangles := triangles d @ [i]\<rparr>)) ts
   = entryAfter old (i # ts)"
  by (cases old) (auto simp: entryAfter_def)

lemma map_of_fold_keys:
  "map_of (fold (\<lambda>key m. addEdgeOccurrence key i m) ks m) k =
     entryAfter (map_of m k) (map (\<lambda>_. i) (filter (\<lambda>k'. k' = k) ks))"
proof (induction ks arbitrary: m)
  case Nil
  show ?case by (simp add: entryAfter_def)
next
  case (Cons a ks)
  show ?case
    by (simp add: Cons.IH map_of_addEdgeOccurrence entryAfter_step)
qed

lemma distinct_fold_keys:
  "distinct (map fst m) \<Longrightarrow> distinct (map fst (fold (\<lambda>key m. addEdgeOccurrence key i m) ks m))"
  by (induction ks arbitrary: m) (auto intro: distinct_addEdgeOccurrence)

lemma entryAfter_append: "entryAfter (entryAfter old ts) us = entryAfter old (ts @ us)"
  by (cases old) (auto simp: entryAfter_def)

lemma map_of_fold_triangles:
  "map_of (fold (addTriangle g) tris m) k =
     entryAfter (map_of m k)
       (concat (map (\<lambda>i. map (\<lambda>_. i) (filter (\<lambda>k'. k' = k) (triangleEdgeKeys g i))) tris))"
proof (induction tris arbitrary: m)
  case Nil
  show ?case by (simp add: entryAfter_def)
next
  case (Cons i tris)
  have "map_of (addTriangle g i m) k =
        entryAfter (map_of m k) (map (\<lambda>_. i) (filter (\<lambda>k'. k' = k) (triangleEdgeKeys g i)))"
    by (simp add: addTriangle_def map_of_fold_keys)
  then show ?case
    by (simp add: Cons.IH entryAfter_append)
qed

lemma distinct_fold_triangles:
  "distinct (map fst m) \<Longrightarrow> distinct (map fst (fold (addTriangle g) tris m))"
proof (induction tris arbitrary: m)
  case Nil
  then show ?case by simp
next
  case (Cons i tris)
  have "distinct (map fst (addTriangle g i m))"
    unfolding addTriangle_def using Cons.prems by (rule distinct_fold_keys)
  then show ?case by (simp add: Cons.IH)
qed

lemma buildEdgeMap_triangles:
  "buildEdgeMap g = Inr m \<Longrightarrow> m = fold (addTriangle g) (geometryTriangles g) []"
  by (auto simp: buildEdgeMap_def triangleCount3_def geometryTriangles_def split: option.splits sum.splits)

lemma buildEdgeMap_lookup:
  assumes "buildEdgeMap g = Inr m"
  shows "map_of m k = entryAfter None (edgeOccurrences g k)"
  using buildEdgeMap_triangles[OF assms] by (simp add: map_of_fold_triangles edgeOccurrences_def)

lemma buildEdgeMap_distinct:
  assumes "buildEdgeMap g = Inr m"
  shows "distinct (map fst m)"
  using buildEdgeMap_triangles[OF assms] by (simp add: distinct_fold_triangles)

lemma buildEdgeMap_entry:
  assumes "buildEdgeMap g = Inr m"
  shows "(k, d) \<in> set m \<longleftrightarrow>
         edgeOccurrences g k \<noteq> [] \<and> d = \<lparr>count = length (edgeOccurrences g k), triangles = edgeOccurrences g k\<rparr>"
proof -
  have "(k, d) \<in> set m \<longleftrightarrow> map_of m k = Some d"
    using buildEdgeMap_distinct[OF assms] by (metis map_of_eq_Some_iff)
  then show ?thesis
    by (auto simp: buildEdgeMap_lookup[OF assms] entryAfter_def)
qed

subsection \<open>The second loop\<close>

lemma map_of_tabulate:
  "map_of (map (\<lambda>i. (i, f i)) xs) t = (if t \<in> set xs then Some (f t) else None)"
  by (induction xs) auto

lemma faceLookup_present:
  assumes "attr_position g = Some pos" and "t \<in> set (geometryTriangles g)"
  shows "faceLookup (triangleToFaceMapFromGeometry fn g) (Some t) = Inr (makeFace fn (index_array g) pos t)"
  using assms
  by (auto simp: faceLookup_def triangleToFaceMapFromGeometry_def geometryTriangles_def map_of_tabulate
           split: option.splits)

lemma classifyEntry_present:
  assumes pos: "attr_position g = Some pos"
    and len: "count d = length (triangles d)"
    and sub: "set (triangles d) \<subseteq> set (geometryTriangles g)"
  shows "classifyEntry fn ang g th (k, d) acc =
         Inr (if selectable fn ang g pos th d then acc @ [k] else acc)"
proof (cases "count d = 2")
  case True
  then obtain t1 t2 where ts: "triangles d = [t1, t2]"
    using len by (cases "triangles d"; cases "tl (triangles d)") (auto simp: length_Suc_conv)
  have "t1 \<in> set (geometryTriangles g)" "t2 \<in> set (geometryTriangles g)"
    using sub ts by auto
  then show ?thesis
    using True ts
    by (simp add: classifyEntry_def js_index_def Let_def selectable_def
                  faceLookup_present[OF pos])
next
  case False
  then show ?thesis
    by (simp add: classifyEntry_def selectable_def)
qed

lemma classifyEntries_present:
  assumes pos: "attr_position g = Some pos"
    and inv: "\<forall>(k, d) \<in> set m. count d = length (triangles d) \<and> set (triangles d) \<subseteq> set (geometryTriangles g)"
  shows "classifyEntries fn ang g th m acc =
         Inr (acc @ map fst (filter (\<lambda>(k, d). selectable fn ang g pos th d) m))"
  using inv
proof (induction m arbitrary: acc)
  case Nil
  show ?case by simp
next
  case (Cons e m)
  obtain k d where e: "e = (k, d)" by (cases e)
  have step: "classifyEntry fn ang g th (k, d) acc =
              Inr (if selectable fn ang g pos th d then acc @ [k] else acc)"
    using Cons.prems by (intro classifyEntry_present[OF pos]) (auto simp: e)
  have rest: "\<forall>(k, d) \<in> set m. count d = length (triangles d) \<and> set (triangles d) \<subseteq> set (geometryTriangles g)"
    using Cons.prems by simp
  show ?case
    by (simp add: e step Cons.IH[OF rest])
qed

lemma classifyEntries_sound:
  "classifyEntries fn ang g th m acc = Inr es \<Longrightarrow> k \<in> set es \<Longrightarrow>
   k \<in> set acc \<or> (\<exists>d. (k, d) \<in> set m \<and> (count d = 1 \<or> count d = 2))"
proof (induction m arbitrary: acc)
  case Nil
  then show ?case by simp
next
  case (Cons e m)
  obtain k' d' where e: "e = (k', d')" by (cases e)
  from Cons.prems(1) obtain acc' where
    step: "classifyEntry fn ang g th (k', d') acc = Inr acc'" and
    rest: "classifyEntries fn ang g th m acc' = Inr es"
    by (auto simp: e split: sum.splits)
  from Cons.IH[OF rest Cons.prems(2)]
  consider "k \<in> set acc'" | "\<exists>d. (k, d) \<in> set m \<and> (count d = 1 \<or> count d = 2)" by blast
  then show ?case
  proof cases
    case 1
    have "set acc' \<subseteq> set acc \<union> (if count d' = 1 \<or> count d' = 2 then {k'} else {})"
      using step by (auto simp: classifyEntry_def Let_def split: if_splits sum.splits)
    with 1 show ?thesis by (auto simp: e split: if_splits)
  next
    case 2
    then show ?thesis by auto
  qed
qed

lemma set_edgeOccurrences: "set (edgeOccurrences g k) \<subseteq> set (geometryTriangles g)"
  by (auto simp: edgeOccurrences_def)

lemma buildEdges_present:
  assumes pos: "attr_position g = Some pos"
  shows "\<exists>m. buildEdgeMap g = Inr m \<and>
           buildEdgesFromGeometry fn ang g th =
             Inr (map fst (filter (\<lambda>(k, d). selectable fn ang g pos th d) m))"
proof -
  have "\<exists>m. buildEdgeMap g = Inr m"
    using pos by (cases "index_array g") (simp_all add: buildEdgeMap_def triangleCount3_def)
  then obtain m where m: "buildEdgeMap g = Inr m" ..
  have inv: "\<forall>(k, d) \<in> set m. count d = length (triangles d) \<and> set (triangles d) \<subseteq> set (geometryTriangles g)"
    using set_edgeOccurrences[of g] by (fastforce simp: buildEdgeMap_entry[OF m])
  show ?thesis
    using classifyEntries_present[OF pos inv, of fn ang th "[]"]
    by (simp add: buildEdgesFromGeometry_def m)
qed

lemma buildEdges_member:
  assumes pos: "attr_position g = Some pos"
  shows "\<exists>edges. buildEdgesFromGeometry fn ang g th = Inr edges \<and>
           (\<forall>k. k \<in> set edges \<longleftrightarrow>
              edgeOccurrences g k \<noteq> [] \<and>
              selectable fn ang g pos th \<lparr>count = length (edgeOccurrences g k), triangles = edgeOccurrences g k\<rparr>)"
proof -
  from buildEdges_present[OF pos, of fn ang th] obtain m where
    m: "buildEdgeMap g = Inr m" and
    es: "buildEdgesFromGeometry fn ang g th = Inr (map fst (filter (\<lambda>(k, d). selectable fn ang g pos th d) m))"
    by blast
  have "k \<in> set (map fst (filter (\<lambda>(k, d). selectable fn ang g pos th d) m)) \<longleftrightarrow>
        edgeOccurrences g k \<noteq> [] \<and>
        selectable fn ang g pos th \<lparr>count = length (edgeOccurrences g k), triangles = edgeOccurrences g k\<rparr>" for k
  proof -
    have "k \<in> set (map fst (filter (\<lambda>(k, d). selectable fn ang g pos th d) m)) \<longleftrightarrow>
          (\<exists>d. (k, d) \<in> set m \<and> selectable fn ang g pos th d)"
      by force
    then show ?thesis
      by (auto simp: buildEdgeMap_entry[OF m])
  qed
  then show ?thesis using es by blast
qed

lemma occurrences_nondegenerate:
  assumes "\<forall>i \<in> set xs. distinct (f i)"
  shows "concat (map (\<lambda>i. map (\<lambda>_. i) (filter (\<lambda>k'. k' = k) (f i))) xs) = filter (\<lambda>i. k \<in> set (f i)) xs"
  using assms
proof (induction xs)
  case Nil
  show ?case by simp
next
  case (Cons i xs)
  have "filter (\<lambda>k'. k' = k) ys = (if k \<in> set ys then [k] else [])" if "distinct ys" for ys :: "'b list"
    using that by (induction ys) auto
  then have "map (\<lambda>_. i) (filter (\<lambda>k'. k' = k) (f i)) = (if k \<in> set (f i) then [i] else [])"
    using Cons.prems by simp
  then show ?case using Cons by simp
qed

lemma occurrences_at_least:
  "length (filter (\<lambda>i. k \<in> set (f i)) xs)
     \<le> length (concat (map (\<lambda>i. map (\<lambda>_. i) (filter (\<lambda>k'. k' = k) (f i))) xs))"
proof (induction xs)
  case Nil
  show ?case by simp
next
  case (Cons i xs)
  have "filter (\<lambda>k'. k' = k) (f i) \<noteq> []" if "k \<in> set (f i)"
    using that by (auto simp: filter_empty_conv)
  then have "k \<in> set (f i) \<Longrightarrow> 1 \<le> length (filter (\<lambda>k'. k' = k) (f i))"
    by (cases "filter (\<lambda>k'. k' = k) (f i)") auto
  then show ?case using Cons by auto
qed

lemma nondegenerate_keys: "nondegenerate g i \<Longrightarrow> distinct (triangleEdgeKeys g i)"
  by (auto simp: nondegenerate_def triangleEdgeKeys_def getEdgeKey_def split: prod.splits if_splits)

lemma edgeOccurrences_nondegenerate:
  assumes "list_all (nondegenerate g) (geometryTriangles g)"
  shows "edgeOccurrences g k = adjacentTriangles g k"
  unfolding edgeOccurrences_def adjacentTriangles_def
  using assms by (intro occurrences_nondegenerate) (auto simp: list_all_iff nondegenerate_keys)

lemma adjacent_le_occurrences:
  "length (adjacentTriangles g k) \<le> length (edgeOccurrences g k)"
  unfolding edgeOccurrences_def adjacentTriangles_def by (rule occurrences_at_least)

lemma fst_getEdgeKey: "fst (getEdgeKey a b) = a \<or> fst (getEdgeKey a b) = b"
  by (simp add: getEdgeKey_def)

lemma key_endpoints:
  assumes "k \<in> set (triangleEdgeKeys g i)"
  shows "fst k \<in> set (triangleVertexList g i)"
proof -
  obtain a b c where v: "triangleVertices g i = (a, b, c)"
    by (cases "triangleVertices g i")
  from assms have "k = getEdgeKey a b \<or> k = getEdgeKey b c \<or> k = getEdgeKey c a"
    by (simp add: triangleEdgeKeys_def v)
  then have "fst k = a \<or> fst k = b \<or> fst k = c"
    using fst_getEdgeKey[of a b] fst_getEdgeKey[of b c] fst_getEdgeKey[of c a] by auto
  then show ?thesis
    by (auto simp: triangleVertexList_def v)
qed

lemma distinct_vertices_keys:
  "distinct (triangleVertexList g i) \<Longrightarrow> distinct (triangleEdgeKeys g i)"
  by (rule nondegenerate_keys) (auto simp: nondegenerate_def triangleVertexList_def split: prod.splits)

lemma length_triangleEdgeKeys: "length (triangleEdgeKeys g i) = 3"
  by (simp add: triangleEdgeKeys_def split: prod.splits)

lemma distinct_all_keys:
  "distinct (concat (map (triangleVertexList g) xs)) \<Longrightarrow> distinct (concat (map (triangleEdgeKeys g) xs))"
proof (induction xs)
  case Nil
  show ?case by simp
next
  case (Cons i xs)
  have d1: "distinct (triangleEdgeKeys g i)"
    using Cons.prems by (simp add: distinct_vertices_keys)
  have d2: "distinct (concat (map (triangleEdgeKeys g) xs))"
    using Cons by simp
  have "set (triangleEdgeKeys g i) \<inter> set (concat (map (triangleEdgeKeys g) xs)) = {}"
  proof (rule ccontr)
    assume "set (triangleEdgeKeys g i) \<inter> set (concat (map (triangleEdgeKeys g) xs)) \<noteq> {}"
    then obtain k j where k: "k \<in> set (triangleEdgeKeys g i)" "j \<in> set xs" "k \<in> set (triangleEdgeKeys g j)"
      by auto
    then have "fst k \<in> set (triangleVertexList g i)" "fst k \<in> set (concat (map (triangleVertexList g) xs))"
      by (auto dest: key_endpoints)
    with Cons.prems show False by auto
  qed
  with d1 d2 show ?case by simp
qed

lemma length_occurrences:
  "length (concat (map (\<lambda>i. map (\<lambda>_. i) (filter (\<lambda>k'. k' = k) (f i))) xs))
     = count_list (concat (map f xs)) k"
proof (induction xs)
  case Nil
  show ?case by simp
next
  case (Cons i xs)
  have "length (filter (\<lambda>k'. k' = k) ys) = count_list ys k" for ys :: "'b list"
    by (induction ys) auto
  then show ?case using Cons by simp
qed

lemma count_list_distinct:
  "distinct xs \<Longrightarrow> count_list xs k = (if k \<in> set xs then 1 else 0)"
  by (induction xs) auto

lemma length_edgeOccurrences:
  "length (edgeOccurrences g k) = count_list (concat (map (triangleEdgeKeys g) (geometryTriangles g))) k"
  unfolding edgeOccurrences_def by (rule length_occurrences)


section \<open>Import and export of the scene\<close>

lemma map_set_fresh: "k \<notin> set (map fst m) \<Longrightarrow> map_set k v m = m @ [(k, v)]"
  by (induction m) auto

lemma map_set_last: "k \<notin> set (map fst m) \<Longrightarrow> map_set k v (m @ [(k, w)]) = m @ [(k, v)]"
  by (induction m) auto

lemma keysBelow_fresh: "keysBelow s \<Longrightarrow> next_uuid s \<notin> set (map fst (objects s))"
  by (auto simp: keysBelow_def list_all_iff)

lemma register_fresh:
  assumes "keysBelow s" and "uuid m = next_uuid s"
  shows "register s m t ps =
           (\<lparr>meta_id = next_uuid s, meta_mesh = m, meta_type = t, meta_params = ps\<rparr>,
            s\<lparr>next_uuid := Suc (next_uuid s),
              scene_children := scene_children s @ [next_uuid s],
              events := events s @ [SceneAdd (next_uuid s)],
              objects := objects s @ [(next_uuid s,
                 \<lparr>meta_id = next_uuid s, meta_mesh = m, meta_type = t, meta_params = ps\<rparr>)]\<rparr>)"
  using keysBelow_fresh[OF assms(1)] assms(2)
  by (simp add: register_def sceneAdd_def Let_def map_set_fresh)

lemma importObject_unknown: "\<not> knownType (od_type d) \<Longrightarrow> importObject d s = s"
  by (simp add: importObject_def knownType_def)

lemma setTransform_fields:
  "mesh_position (setTransform d m) = mesh_position m"
  "mesh_rotation (setTransform d m) = (case od_rotation d of None \<Rightarrow> mesh_rotation m | Some r \<Rightarrow> r)"
  "mesh_scale (setTransform d m) = (case od_scale d of None \<Rightarrow> mesh_scale m | Some sc \<Rightarrow> sc)"
  by (simp_all add: setTransform_def Let_def split: option.splits)

lemma newMesh_fields:
  "uuid (newMesh u n p g mat) = u"
  "mesh_position (newMesh u n p g mat) = p"
  "mesh_rotation (newMesh u n p g mat) = (0, 0, 0, ''XYZ'')"
  "mesh_scale (newMesh u n p g mat) = (1, 1, 1)"
  by (simp_all add: newMesh_def)

lemma importObject_created:
  assumes below: "keysBelow s"
    and m: "m = newMesh (next_uuid s) n (case od_position d of None \<Rightarrow> (0, 0, 0) | Some p \<Rightarrow> p) g mat"
    and imp: "importObject d s =
                (case register s m (od_type d) ps of (meta, s1) \<Rightarrow>
                   s1\<lparr>objects := map_set (meta_id meta)
                                    (meta\<lparr>meta_mesh := setTransform d (meta_mesh meta)\<rparr>) (objects s1)\<rparr>)"
  shows "\<exists>meta. objects (importObject d s) = objects s @ [(next_uuid s, meta)]
              \<and> transformOf meta = importedTransform d
              \<and> next_uuid (importObject d s) = Suc (next_uuid s)
              \<and> events (importObject d s) = events s @ [SceneAdd (next_uuid s)]
              \<and> scene_children (importObject d s) = scene_children s @ [next_uuid s]"
proof -
  have fresh: "next_uuid s \<notin> set (map fst (objects s))"
    by (rule keysBelow_fresh[OF below])
  have u: "uuid m = next_uuid s"
    by (simp add: m newMesh_fields)
  define meta where "meta = \<lparr>meta_id = next_uuid s, meta_mesh = setTransform d m,
                              meta_type = od_type d, meta_params = ps\<rparr>"
  have o: "objects (importObject d s) = objects s @ [(next_uuid s, meta)]"
    using fresh by (simp add: imp register_fresh[OF below u] map_set_last meta_def)
  have t: "transformOf meta = importedTransform d"
    by (simp add: transformOf_def importedTransform_def meta_def setTransform_fields m newMesh_fields
             split: option.splits)
  have n: "next_uuid (importObject d s) = Suc (next_uuid s)"
    by (simp add: imp register_fresh[OF below u])
  have e: "events (importObject d s) = events s @ [SceneAdd (next_uuid s)]"
    by (simp add: imp register_fresh[OF below u])
  have c: "scene_children (importObject d s) = scene_children s @ [next_uuid s]"
    by (simp add: imp register_fresh[OF below u])
  from o t n e c show ?thesis by blast
qed

lemma importObject_known:
  assumes known: "knownType (od_type d)" and below: "keysBelow s"
  shows "\<exists>meta. objects (importObject d s) = objects s @ [(next_uuid s, meta)]
              \<and> transformOf meta = importedTransform d
              \<and> next_uuid (importObject d s) = Suc (next_uuid s)
              \<and> events (importObject d s) = events s @ [SceneAdd (next_uuid s)]
              \<and> scene_children (importObject d s) = scene_children s @ [next_uuid s]"
proof -
  consider "od_type d = ''Box''" | "od_type d = ''Sphere''" | "od_type d = ''Cylinder''"
    using known by (auto simp: knownType_def)
  then show ?thesis
  proof cases
    case 1
    show ?thesis
      by (rule importObject_created[OF below refl]) (simp add: importObject_def addBox_def Let_def 1)
  next
    case 2
    show ?thesis
      by (rule importObject_created[OF below refl]) (simp add: importObject_def addSphere_def Let_def 2)
  next
    case 3
    show ?thesis
      by (rule importObject_created[OF below refl]) (simp add: importObject_def addCylinder_def Let_def 3)
  qed
qed

lemma keysBelow_append:
  "keysBelow s \<Longrightarrow> objects s' = objects s @ [(next_uuid s, meta)] \<Longrightarrow> next_uuid s' = Suc (next_uuid s)
   \<Longrightarrow> keysBelow s'"
  by (auto simp: keysBelow_def list_all_iff)

lemma upt_shift: "[n..<n + Suc k] = n # [Suc n..<Suc n + k]"
  by (simp add: upt_conv_Cons)

lemma fold_importObject:
  assumes "keysBelow s"
  shows "map (\<lambda>(id, meta). transformOf meta) (objects (fold importObject objs s))
           = map (\<lambda>(id, meta). transformOf meta) (objects s)
             @ map importedTransform (filter (\<lambda>d. knownType (od_type d)) objs)
       \<and> map fst (objects (fold importObject objs s))
           = map fst (objects s)
             @ [next_uuid s..<next_uuid s + length (filter (\<lambda>d. knownType (od_type d)) objs)]
       \<and> events (fold importObject objs s)
           = events s
             @ map SceneAdd [next_uuid s..<next_uuid s + length (filter (\<lambda>d. knownType (od_type d)) objs)]
       \<and> scene_children (fold importObject objs s)
           = scene_children s
             @ [next_uuid s..<next_uuid s + length (filter (\<lambda>d. knownType (od_type d)) objs)]"
  using assms
proof (induction objs arbitrary: s)
  case Nil
  show ?case by simp
next
  case (Cons d objs)
  show ?case
  proof (cases "knownType (od_type d)")
    case False
    then show ?thesis
      using Cons.IH[OF Cons.prems] by (simp add: importObject_unknown)
  next
    case True
    from importObject_known[OF True Cons.prems] obtain meta where
      o: "objects (importObject d s) = objects s @ [(next_uuid s, meta)]" and
      t: "transformOf meta = importedTransform d" and
      n: "next_uuid (importObject d s) = Suc (next_uuid s)" and
      e: "events (importObject d s) = events s @ [SceneAdd (next_uuid s)]" and
      c: "scene_children (importObject d s) = scene_children s @ [next_uuid s]"
      by blast
    have kb: "keysBelow (importObject d s)"
      by (rule keysBelow_append[OF Cons.prems o n])
    define k where "k = length (filter (\<lambda>d. knownType (od_type d)) objs)"
    have len: "length (filter (\<lambda>d. knownType (od_type d)) (d # objs)) = Suc k"
      using True by (simp add: k_def)
    from Cons.IH[OF kb] show ?thesis
      unfolding len upt_shift k_def[symmetric] n
      using True by (simp add: o t e c)
  qed
qed

lemma fold_discardObject:
  "objects (fold discardObject metas s) = objects s
   \<and> next_uuid (fold discardObject metas s) = next_uuid s
   \<and> events (fold discardObject metas s) = events s @ concat (map disposeEvents metas)
   \<and> scene_children (fold discardObject metas s)
       = filter (\<lambda>u. u \<notin> set (map (\<lambda>meta. uuid (meta_mesh meta)) metas)) (scene_children s)"
proof (induction metas arbitrary: s)
  case Nil
  show ?case by simp
next
  case (Cons meta metas)
  have r: "removeAll x xs = filter (\<lambda>u. u \<noteq> x) xs" for x :: nat and xs
    by (induction xs) auto
  have step: "objects (discardObject meta s) = objects s"
    "next_uuid (discardObject meta s) = next_uuid s"
    "events (discardObject meta s) = events s @ disposeEvents meta"
    "scene_children (discardObject meta s) = filter (\<lambda>u. u \<noteq> uuid (meta_mesh meta)) (scene_children s)"
    by (simp_all add: discardObject_def r)
  show ?case
    by (simp add: Cons.IH step conj_commute)
qed

lemma clearObjects_result:
  "objects (clearObjects s) = []
   \<and> next_uuid (clearObjects s) = next_uuid s
   \<and> events (clearObjects s) = events s @ concat (map (\<lambda>(id, meta). disposeEvents meta) (objects s))
   \<and> scene_children (clearObjects s)
       = filter (\<lambda>u. u \<notin> set (map (\<lambda>(id, meta). uuid (meta_mesh meta)) (objects s))) (scene_children s)"
  by (simp add: clearObjects_def fold_discardObject o_def case_prod_unfold)

lemma importScene_objects:
  "fst (importScene s (Document (Objects objs))) = True \<and>
   snd (importScene s (Document (Objects objs))) = fold importObject objs (clearObjects s) \<and>
   events (snd (importScene s (Document (Objects objs))))
     = events (clearObjects s)
       @ map SceneAdd [next_uuid s..<next_uuid s + length (filter (\<lambda>d. knownType (od_type d)) objs)] \<and>
   map fst (objects (snd (importScene s (Document (Objects objs)))))
     = [next_uuid s..<next_uuid s + length (filter (\<lambda>d. knownType (od_type d)) objs)] \<and>
   scene_children (snd (importScene s (Document (Objects objs))))
     = scene_children (clearObjects s)
       @ [next_uuid s..<next_uuid s + length (filter (\<lambda>d. knownType (od_type d)) objs)] \<and>
   map (\<lambda>(id, meta). transformOf meta) (objects (snd (importScene s (Document (Objects objs)))))
     = map importedTransform (filter (\<lambda>d. knownType (od_type d)) objs)"
proof -
  have kb: "keysBelow (clearObjects s)"
    by (simp add: keysBelow_def clearObjects_result)
  from fold_importObject[OF kb, of objs] show ?thesis
    by (simp add: importScene_def clearObjects_result)
qed

lemma importedTransform_export: "importedTransform (exportObject meta) = transformOf meta"
  by (simp add: importedTransform_def exportObject_def transformOf_def)

lemma roundtrip_known_types:
  assumes "list_all (\<lambda>(id, meta). knownType (meta_type meta)) (objects s)"
  shows "fst (importScene s (exportScene s)) = True
       \<and> map (\<lambda>(id, meta). transformOf meta) (objects (snd (importScene s (exportScene s))))
           = map (\<lambda>(id, meta). transformOf meta) (objects s)"
proof -
  define objs where "objs = map (\<lambda>(id, meta). exportObject meta) (objects s)"
  have f: "filter (\<lambda>d. knownType (od_type d)) objs = objs"
    unfolding objs_def using assms by (intro filter_True) (auto simp: list_all_iff exportObject_def)
  have t: "map importedTransform objs = map (\<lambda>(id, meta). transformOf meta) (objects s)"
    unfolding objs_def by (simp add: importedTransform_export case_prod_unfold)
  have e: "exportScene s = Document (Objects objs)"
    by (simp add: exportScene_def objs_def)
  from importScene_objects[of s objs] have
    "fst (importScene s (Document (Objects objs))) = True"
    "map (\<lambda>(id, meta). transformOf meta) (objects (snd (importScene s (Document (Objects objs)))))
       = map importedTransform (filter (\<lambda>d. knownType (od_type d)) objs)"
    by blast+
  then show ?thesis
    unfolding e f t by simp
qed


section \<open>Drawing a rectangle\<close>

lemma extent_rect: "0 \<le> w \<Longrightarrow> extent [0, w, w, 0, 0] = w"
  by (simp add: extent_def)

lemma extent_rect2: "0 \<le> d \<Longrightarrow> extent [0, 0, d, d, 0] = d"
  by (simp add: extent_def)

lemma createRectangle_result:
  assumes "startPoint sk = Some (sx, sy, sz)" and fresh: "uuidFresh (sk_manager sk)"
    and mode: "sk_mode sk = RECTANGLE"
  shows "if \<bar>ex - sx\<bar> < 1 / 10 \<or> \<bar>ez - sz\<bar> < 1 / 10
         then createRectangle sk (ex, ey, ez) = sk
         else objects (sk_manager (createRectangle sk (ex, ey, ez)))
                = objects (sk_manager sk)
                  @ [(next_uuid (sk_manager sk),
                      \<lparr>meta_id = next_uuid (sk_manager sk),
                       meta_mesh =
                         \<lparr>uuid = next_uuid (sk_manager sk), mesh_name = [],
                          mesh_position = (min sx ex, 0, min sz ez),
                          mesh_rotation = (0, 0, 0, ''XYZ''), mesh_scale = (1, 1, 1),
                          mesh_geometry =
                            Some (RotatedToGround (ExtrudeGeometry
                              (Path [(0, 0), (\<bar>ex - sx\<bar>, 0), (\<bar>ex - sx\<bar>, \<bar>ez - sz\<bar>),
                                     (0, \<bar>ez - sz\<bar>), (0, 0)])
                              [(''depth'', JNum 1), (''bevelEnabled'', JBool False)])),
                          mesh_material = Some (Single (Material 0x8888ff)), userData = []\<rparr>,
                       meta_type = ''Rectangle'', meta_params = []\<rparr>)]
            \<and> scene_children (sk_manager (createRectangle sk (ex, ey, ez)))
                = scene_children (sk_manager sk) @ [next_uuid (sk_manager sk)]
            \<and> events (sk_manager (createRectangle sk (ex, ey, ez)))
                = events (sk_manager sk) @ [SceneAdd (next_uuid (sk_manager sk))]"
  using assms
  by (auto simp: createRectangle_def extrudeShape_def Let_def addObject_def sceneAdd_def newMesh_def
                 uuidFresh_def map_set_fresh)

lemma snap_examples:
  "snapToGrid (1 / 2) 0 = 0" "snapToGrid (1 / 2) 2 = 2" "snapToGrid (1 / 2) 3 = 3"
  "snapToGrid (1 / 2) (5 / 100) = 0" "snapToGrid (1 / 2) (1 / 20) = 0"
  by (simp_all add: snapToGrid_def round_def)

section \<open>Edge picking as the class has it\<close>

text \<open>\<^verbatim>\<open>distanceToEdge\<close> throws whatever it is given, so each loop ends at its first edge.\<close>

lemma distanceToEdge_throws: "distanceToEdge arg edge mw = Inl TypeError"
  by (simp add: distanceToEdge_def split: edge.splits ray_argument.splits)

lemma raycastEdgesOf_result:
  "raycastEdgesOf ray meta edges = (if edges = [] then Inr None else Inl TypeError)"
  by (cases edges) (simp_all add: distanceToEdge_throws)

lemma raycastEdges_result:
  "raycastEdges ray objs = (if concat (map pick_edges objs) = [] then Inr None else Inl TypeError)"
  by (induction objs) (simp_all add: raycastEdgesOf_result)

lemma findClosestEdgeLoop_result:
  "findClosestEdgeLoop point mw edges closestEdge minDistance
     = (if edges = [] then Inr closestEdge else Inl TypeError)"
  by (cases edges) (simp_all add: distanceToEdge_throws)

section \<open>The replaced definition of findClosestEdge\<close>

text \<open>
  When it returns, the definition of lines 731 to 777 returns the first edge of least
  distance among the edges closer than 0.1 to the hit point (in local space), and no edge
  when there is none.
\<close>

lemma findClosestEdgeLocalLoop_step:
  "findClosestEdgeLocalLoop ops p verts (e # es) ce cd = Inr r \<Longrightarrow>
   findClosestEdgeLocalLoop ops p verts es
     (if beats (vertexDistance ops p verts e) cd then Some e else ce)
     (if beats (vertexDistance ops p verts e) cd then Some (vertexDistance ops p verts e) else cd) = Inr r"
  by (auto simp: js_index_def vertexDistance_def beats_def Let_def split: if_splits option.splits)

lemma findClosestEdgeLocalLoop_closest:
  assumes "findClosestEdgeLocalLoop ops p verts edges ce cd = Inr r"
  shows "(r = ce \<and> (\<forall>e' \<in> set edges. \<not> beats (vertexDistance ops p verts e') cd))
       \<or> (\<exists>pre e post. edges = pre @ e # post \<and> r = Some e
             \<and> beats (vertexDistance ops p verts e) cd
             \<and> (\<forall>e' \<in> set pre. vertexDistance ops p verts e < vertexDistance ops p verts e')
             \<and> (\<forall>e' \<in> set post. vertexDistance ops p verts e \<le> vertexDistance ops p verts e'))"
  using assms
proof (induction edges arbitrary: ce cd)
  case Nil
  then show ?case by simp
next
  case (Cons e0 rest)
  let ?d = "vertexDistance ops p verts"
  show ?case
  proof (cases "beats (?d e0) cd")
    case True
    from findClosestEdgeLocalLoop_step[OF Cons.prems] True
    have "findClosestEdgeLocalLoop ops p verts rest (Some e0) (Some (?d e0)) = Inr r" by simp
    from Cons.IH[OF this]
    consider (keep) "r = Some e0" "\<forall>e' \<in> set rest. \<not> beats (?d e') (Some (?d e0))"
      | (later) pre e post where "rest = pre @ e # post" "r = Some e" "beats (?d e) (Some (?d e0))"
          "\<forall>e' \<in> set pre. ?d e < ?d e'" "\<forall>e' \<in> set post. ?d e \<le> ?d e'"
      by blast
    then show ?thesis
    proof cases
      case keep
      have "\<forall>e' \<in> set rest. ?d e0 \<le> ?d e'"
      proof
        fix e' assume "e' \<in> set rest"
        with keep(2) have "\<not> beats (?d e') (Some (?d e0))" by blast
        with True show "?d e0 \<le> ?d e'" by (auto simp: beats_def)
      qed
      with keep(1) True have "e0 # rest = [] @ e0 # rest \<and> r = Some e0 \<and> beats (?d e0) cd
          \<and> (\<forall>e' \<in> set []. ?d e0 < ?d e') \<and> (\<forall>e' \<in> set rest. ?d e0 \<le> ?d e')"
        by simp
      then show ?thesis by blast
    next
      case later
      have b: "beats (?d e) cd"
        using later(3) True by (auto simp: beats_def split: option.splits)
      have "?d e < ?d e0"
        using later(3) by (simp add: beats_def)
      with later(4) have "\<forall>e' \<in> set (e0 # pre). ?d e < ?d e'" by simp
      with later(1,2,5) b have "e0 # rest = (e0 # pre) @ e # post \<and> r = Some e \<and> beats (?d e) cd
          \<and> (\<forall>e' \<in> set (e0 # pre). ?d e < ?d e') \<and> (\<forall>e' \<in> set post. ?d e \<le> ?d e')"
        by simp
      then show ?thesis by blast
    qed
  next
    case False
    from findClosestEdgeLocalLoop_step[OF Cons.prems] False
    have "findClosestEdgeLocalLoop ops p verts rest ce cd = Inr r" by simp
    from Cons.IH[OF this]
    consider (keep) "r = ce" "\<forall>e' \<in> set rest. \<not> beats (?d e') cd"
      | (later) pre e post where "rest = pre @ e # post" "r = Some e" "beats (?d e) cd"
          "\<forall>e' \<in> set pre. ?d e < ?d e'" "\<forall>e' \<in> set post. ?d e \<le> ?d e'"
      by blast
    then show ?thesis
    proof cases
      case keep
      with False show ?thesis by simp
    next
      case later
      have "?d e < ?d e0"
        using later(3) False by (auto simp: beats_def split: option.splits)
      with later(4) have "\<forall>e' \<in> set (e0 # pre). ?d e < ?d e'" by simp
      with later(1,2,3,5) have "e0 # rest = (e0 # pre) @ e # post \<and> r = Some e \<and> beats (?d e) cd
          \<and> (\<forall>e' \<in> set (e0 # pre). ?d e < ?d e') \<and> (\<forall>e' \<in> set post. ?d e \<le> ?d e')"
        by simp
      then show ?thesis by blast
    qed
  qed
qed

lemma findClosestEdgeLocal_closest:
  assumes "findClosestEdgeLocal ops p verts edges = Inr r"
  shows "(r = None \<and> (\<forall>e' \<in> set edges. \<not> vertexDistance ops p verts e' < 1 / 10))
       \<or> (\<exists>pre e post. edges = pre @ e # post \<and> r = Some e
             \<and> vertexDistance ops p verts e < 1 / 10
             \<and> (\<forall>e' \<in> set pre. vertexDistance ops p verts e < vertexDistance ops p verts e')
             \<and> (\<forall>e' \<in> set post. vertexDistance ops p verts e \<le> vertexDistance ops p verts e'))"
  using findClosestEdgeLocalLoop_closest[OF assms[unfolded findClosestEdgeLocal_def]]
  by (simp add: beats_def)


section \<open>The selection manager after its constructor\<close>





section \<open>Claims about the geometry analyzer\<close>

subsection \<open>Evaluations at the sample geometries\<close>

lemma twoTriangles_edges:
  "buildEdgesFromGeometry sampleNormal sampleAngle twoTriangles 1 =
     Inr [(Some 0, Some 1), (Some 1, Some 2), (Some 0, Some 2), (Some 1, Some 3), (Some 2, Some 3)]"
  by code_simp

lemma twoTriangles_nondegenerate:
  "list_all (nondegenerate twoTriangles) (geometryTriangles twoTriangles)"
  by code_simp

lemma degenerateTriangle_edgeMap:
  "buildEdgeMap degenerateTriangle =
     Inr [((Some 0, Some 0), \<lparr>count = 1, triangles = [0]\<rparr>),
          ((Some 0, Some 1), \<lparr>count = 2, triangles = [0, 0]\<rparr>)]"
  by code_simp

lemma degenerateTriangle_edges:
  "buildEdgesFromGeometry sampleNormal rightAngle degenerateTriangle 2 = Inr [(Some 0, Some 0)]"
proof -
  have fm: "map_of (triangleToFaceMapFromGeometry sampleNormal degenerateTriangle) 0
              = Some \<lparr>materialIndex = 0, normal = 10, vertices = [Some 10, Some 10, Some 20]\<rparr>"
    by code_simp
  show ?thesis
    using pi_half_less_two
    by (simp add: buildEdgesFromGeometry_def degenerateTriangle_edgeMap classifyEntry_def
                  js_index_def faceLookup_def fm rightAngle_def)
qed

lemma fanTriangles_edges:
  "buildEdgesFromGeometry sampleNormal sampleAngle fanTriangles 1 =
     Inr [(Some 1, Some 2), (Some 0, Some 2), (Some 1, Some 3), (Some 0, Some 3),
          (Some 1, Some 4), (Some 0, Some 4)]"
  by code_simp

subsection \<open>C1: boundary and crease edges\<close>

text \<open>
  C1, for geometries without degenerate triangles. For every geometry with a position
  buffer in which every triangle has three distinct vertex indices, \<^verbatim>\<open>buildEdgesFromGeometry\<close> returns an edge list that
  contains every canonical edge belonging to exactly one triangle, and contains an edge
  belonging to exactly two triangles if and only if the angle between the face normals
  of these two triangles exceeds the threshold.
\<close>

theorem buildEdges_boundary_and_crease:
  assumes pos: "attr_position g = Some pos"
    and nondeg: "list_all (nondegenerate g) (geometryTriangles g)"
  shows "\<exists>edges. buildEdgesFromGeometry faceNormal angleTo g thresholdAngle = Inr edges \<and>
           (adjacentTriangles g key = [t] \<longrightarrow> key \<in> set edges) \<and>
           (adjacentTriangles g key = [t1, t2] \<longrightarrow>
              (key \<in> set edges \<longleftrightarrow>
                 thresholdAngle < angleTo (normal (makeFace faceNormal (index_array g) pos t1))
                                          (normal (makeFace faceNormal (index_array g) pos t2))))"
proof -
  from buildEdges_member[OF pos, of faceNormal angleTo thresholdAngle] obtain edges where
    es: "buildEdgesFromGeometry faceNormal angleTo g thresholdAngle = Inr edges" and
    mem: "\<And>k. k \<in> set edges \<longleftrightarrow>
              edgeOccurrences g k \<noteq> [] \<and>
              selectable faceNormal angleTo g pos thresholdAngle
                \<lparr>count = length (edgeOccurrences g k), triangles = edgeOccurrences g k\<rparr>"
    by blast
  have occ: "edgeOccurrences g key = adjacentTriangles g key"
    by (rule edgeOccurrences_nondegenerate[OF nondeg])
  have "adjacentTriangles g key = [t] \<Longrightarrow> key \<in> set edges"
    by (simp add: mem occ selectable_def)
  moreover have "adjacentTriangles g key = [t1, t2] \<Longrightarrow>
      (key \<in> set edges \<longleftrightarrow>
         thresholdAngle < angleTo (normal (makeFace faceNormal (index_array g) pos t1))
                                  (normal (makeFace faceNormal (index_array g) pos t2)))"
    by (simp add: mem occ selectable_def)
  ultimately show ?thesis using es by blast
qed

theorem buildEdges_boundary_and_crease_witness:
  "attr_position twoTriangles = Some [10, 20, 30, 40] \<and>
   list_all (nondegenerate twoTriangles) (geometryTriangles twoTriangles) \<and>
   adjacentTriangles twoTriangles (Some 0, Some 1) = [0] \<and>
   adjacentTriangles twoTriangles (Some 1, Some 2) = [0, 1] \<and>
   (\<exists>edges. buildEdgesFromGeometry sampleNormal sampleAngle twoTriangles 1 = Inr edges \<and>
            (Some 0, Some 1) \<in> set edges \<and> (Some 1, Some 2) \<in> set edges)"
proof -
  have pos: "attr_position twoTriangles = Some [10, 20, 30, 40]"
    by (simp add: twoTriangles_def)
  have nd: "list_all (nondegenerate twoTriangles) (geometryTriangles twoTriangles)"
    by (rule twoTriangles_nondegenerate)
  have a1: "adjacentTriangles twoTriangles (Some 0, Some 1) = [0]"
    by code_simp
  have a2: "adjacentTriangles twoTriangles (Some 1, Some 2) = [0, 1]"
    by code_simp
  have ang: "(1::real) < sampleAngle (normal (makeFace sampleNormal (index_array twoTriangles) [10, 20, 30, 40] 0))
                                     (normal (makeFace sampleNormal (index_array twoTriangles) [10, 20, 30, 40] 1))"
    by code_simp
  from buildEdges_boundary_and_crease[OF pos nd, of sampleNormal sampleAngle 1 "(Some 0, Some 1)" 0 0 0]
  have b: "(Some 0, Some 1) \<in> set edges"
    if "buildEdgesFromGeometry sampleNormal sampleAngle twoTriangles 1 = Inr edges" for edges
    using that a1 by auto
  from buildEdges_boundary_and_crease[OF pos nd, of sampleNormal sampleAngle 1 "(Some 1, Some 2)" 0 0 1]
  obtain edges where
    e: "buildEdgesFromGeometry sampleNormal sampleAngle twoTriangles 1 = Inr edges" and
    c: "(Some 1, Some 2) \<in> set edges"
    using a2 ang by auto
  from e b[OF e] c pos nd a1 a2 show ?thesis by blast
qed

text \<open>
  Without that restriction the statement fails, on a triangle that repeats a vertex index. In the geometry
  with index buffer \<open>[0, 0, 1]\<close> the edge \<open>(0, 1)\<close> belongs to exactly one triangle, yet it
  fills two edge slots of it, so its count is 2 and it goes through the angle test,
  with the normal of that triangle on both sides. With threshold 2 it is left out.
\<close>

theorem buildEdges_boundary_counterexample:
  "adjacentTriangles degenerateTriangle (Some 0, Some 1) = [0] \<and>
   buildEdgesFromGeometry sampleNormal rightAngle degenerateTriangle 2 = Inr [(Some 0, Some 0)] \<and>
   (Some 0, Some 1) \<notin> set [(Some (0::nat), Some (0::nat))]"
proof -
  have "adjacentTriangles degenerateTriangle (Some 0, Some 1) = [0]"
    by code_simp
  then show ?thesis
    by (simp add: degenerateTriangle_edges)
qed

subsection \<open>C2: triangles without shared vertices\<close>

text \<open>
  C2, with the count put right. For every geometry with a position buffer whose \<open>N\<close> triangles use
  \<open>3 * N\<close> pairwise different vertex indices, \<^verbatim>\<open>buildEdgesFromGeometry\<close> produces
  exactly \<open>3 * N\<close> edges, and each of them is a boundary edge: its count in the edge
  map is 1.
\<close>

theorem buildEdges_apart_triangles:
  assumes pos: "attr_position g = Some pos"
    and apart: "distinct (concat (map (triangleVertexList g) (geometryTriangles g)))"
  shows "\<exists>edgeMap edges.
           buildEdgeMap g = Inr edgeMap \<and>
           buildEdgesFromGeometry faceNormal angleTo g thresholdAngle = Inr edges \<and>
           length edges = 3 * length (geometryTriangles g) \<and>
           list_all (\<lambda>key. map_option count (map_of edgeMap key) = Some 1) edges"
proof -
  define keys where "keys = concat (map (triangleEdgeKeys g) (geometryTriangles g))"
  from buildEdges_present[OF pos, of faceNormal angleTo thresholdAngle] obtain m where
    m: "buildEdgeMap g = Inr m" and
    es: "buildEdgesFromGeometry faceNormal angleTo g thresholdAngle =
           Inr (map fst (filter (\<lambda>(k, d). selectable faceNormal angleTo g pos thresholdAngle d) m))"
    by blast
  define ks where "ks = map fst m"
  have dm: "distinct ks"
    unfolding ks_def by (rule buildEdgeMap_distinct[OF m])
  have dk: "distinct keys"
    unfolding keys_def by (rule distinct_all_keys[OF apart])
  have occ: "length (edgeOccurrences g k) = (if k \<in> set keys then 1 else 0)" for k
    unfolding length_edgeOccurrences keys_def[symmetric] by (rule count_list_distinct[OF dk])
  have entry: "(k, d) \<in> set m \<longleftrightarrow>
         edgeOccurrences g k \<noteq> [] \<and> d = \<lparr>count = length (edgeOccurrences g k), triangles = edgeOccurrences g k\<rparr>" for k d
    by (rule buildEdgeMap_entry[OF m])
  have one: "count d = 1" if "(k, d) \<in> set m" for k d
  proof -
    from that have ne: "edgeOccurrences g k \<noteq> []" and c: "count d = length (edgeOccurrences g k)"
      unfolding entry by simp_all
    from ne have "length (edgeOccurrences g k) \<noteq> 0" by simp
    then have "length (edgeOccurrences g k) = 1"
      unfolding occ by (simp split: if_splits)
    with c show ?thesis by simp
  qed
  have all: "filter (\<lambda>(k, d). selectable faceNormal angleTo g pos thresholdAngle d) m = m"
  proof (rule filter_True, clarify)
    fix k d assume "(k, d) \<in> set m"
    then have "count d = 1" by (rule one)
    then show "selectable faceNormal angleTo g pos thresholdAngle d"
      by (simp add: selectable_def)
  qed
  have mem: "k \<in> set ks \<longleftrightarrow> k \<in> set keys" for k
  proof -
    have "k \<in> set ks \<longleftrightarrow> (\<exists>d. (k, d) \<in> set m)"
      unfolding ks_def by force
    also have "\<dots> \<longleftrightarrow> edgeOccurrences g k \<noteq> []"
      unfolding entry by simp
    also have "\<dots> \<longleftrightarrow> length (edgeOccurrences g k) \<noteq> 0"
      by simp
    also have "\<dots> \<longleftrightarrow> k \<in> set keys"
      unfolding occ by simp
    finally show ?thesis .
  qed
  then have sets: "set ks = set keys" by blast
  have "length ks = card (set ks)"
    using distinct_card[OF dm] by simp
  also have "\<dots> = length keys"
    unfolding sets using distinct_card[OF dk] by simp
  also have "\<dots> = 3 * length (geometryTriangles g)"
  proof -
    have "length (concat (map (triangleEdgeKeys g) xs)) = 3 * length xs" for xs
      by (induction xs) (simp_all add: length_triangleEdgeKeys)
    then show ?thesis unfolding keys_def .
  qed
  finally have len: "length ks = 3 * length (geometryTriangles g)" .
  have cnt: "list_all (\<lambda>key. map_option count (map_of m key) = Some 1) ks"
  proof -
    have "map_option count (map_of m k) = Some 1" if "k \<in> set ks" for k
    proof -
      from that obtain d where d: "(k, d) \<in> set m"
        unfolding ks_def by force
      then have "map_of m k = Some d"
        using dm unfolding ks_def by simp
      then show ?thesis using one[OF d] by simp
    qed
    then show ?thesis unfolding list_all_iff by blast
  qed
  show ?thesis
    using m es len cnt unfolding all ks_def by blast
qed

theorem buildEdges_apart_triangles_witness:
  "attr_position apartTriangles = Some [10, 20, 30, 40, 50, 60] \<and>
   distinct (concat (map (triangleVertexList apartTriangles) (geometryTriangles apartTriangles))) \<and>
   length (geometryTriangles apartTriangles) = 2 \<and>
   (\<exists>edgeMap edges.
      buildEdgeMap apartTriangles = Inr edgeMap \<and>
      buildEdgesFromGeometry sampleNormal sampleAngle apartTriangles 1 = Inr edges \<and>
      length edges = 6 \<and>
      list_all (\<lambda>key. map_option count (map_of edgeMap key) = Some 1) edges)"
proof -
  have pos: "attr_position apartTriangles = Some [10, 20, 30, 40, 50, 60]"
    by (simp add: apartTriangles_def)
  have apart: "distinct (concat (map (triangleVertexList apartTriangles) (geometryTriangles apartTriangles)))"
    by code_simp
  have n: "length (geometryTriangles apartTriangles) = 2"
    by code_simp
  from buildEdges_apart_triangles[OF pos apart, of sampleNormal sampleAngle 1]
  show ?thesis using pos apart n by simp
qed

text \<open>
  \<open>N\<close> edges are not what \<open>N\<close> such triangles give: the non-indexed geometry of three
  vertices has \<open>N = 1\<close> triangle and three edges.
\<close>

theorem buildEdges_count_counterexample:
  "length (geometryTriangles singleTriangle) = 1 \<and>
   distinct (concat (map (triangleVertexList singleTriangle) (geometryTriangles singleTriangle))) \<and>
   buildEdgesFromGeometry sampleNormal sampleAngle singleTriangle 1 =
     Inr [(Some 0, Some 1), (Some 1, Some 2), (Some 0, Some 2)] \<and>
   length [(Some (0::nat), Some (1::nat)), (Some 1, Some 2), (Some 0, Some 2)]
     \<noteq> length (geometryTriangles singleTriangle)"
  by code_simp

subsection \<open>C3: a geometry without position buffer\<close>

text \<open>
  C3. With the position buffer absent \<^verbatim>\<open>triangleToFaceMapFromGeometry\<close> returns the
  empty face map, but \<^verbatim>\<open>buildEdgesFromGeometry\<close> has no such guard: without an index
  buffer it reads \<^verbatim>\<open>position.count\<close> of \<^verbatim>\<open>undefined\<close> and throws; with an index buffer
  of one triangle it returns three edges, not the empty list.
\<close>

theorem buildEdges_without_position:
  "triangleToFaceMapFromGeometry faceNormal noBuffers = [] \<and>
   buildEdgesFromGeometry faceNormal angleTo noBuffers thresholdAngle = Inl TypeError \<and>
   triangleToFaceMapFromGeometry faceNormal indexOnly = [] \<and>
   buildEdgesFromGeometry faceNormal angleTo indexOnly thresholdAngle =
     Inr [(Some 0, Some 1), (Some 1, Some 2), (Some 0, Some 2)]"
proof -
  have m: "buildEdgeMap indexOnly =
             Inr [((Some 0, Some 1), \<lparr>count = 1, triangles = [0]\<rparr>),
                  ((Some 1, Some 2), \<lparr>count = 1, triangles = [0]\<rparr>),
                  ((Some 0, Some 2), \<lparr>count = 1, triangles = [0]\<rparr>)]"
    by code_simp
  have a: "buildEdgesFromGeometry faceNormal angleTo noBuffers thresholdAngle = Inl TypeError"
    by (simp add: buildEdgesFromGeometry_def buildEdgeMap_def triangleCount3_def noBuffers_def)
  have b: "buildEdgesFromGeometry faceNormal angleTo indexOnly thresholdAngle =
             Inr [(Some 0, Some 1), (Some 1, Some 2), (Some 0, Some 2)]"
    by (simp add: buildEdgesFromGeometry_def m classifyEntry_def)
  have c: "triangleToFaceMapFromGeometry faceNormal noBuffers = []"
    by (simp add: triangleToFaceMapFromGeometry_def noBuffers_def)
  have d: "triangleToFaceMapFromGeometry faceNormal indexOnly = []"
    by (simp add: triangleToFaceMapFromGeometry_def indexOnly_def)
  from a b c d show ?thesis by blast
qed

subsection \<open>C10: edges of three or more triangles\<close>

text \<open>
  C10. An edge whose key is shared by three or more triangles is in no edge list that
  \<^verbatim>\<open>buildEdgesFromGeometry\<close> returns, whatever the normals, the angle function and the
  threshold; and the function does return a list unless the position buffer is absent.
\<close>

theorem buildEdges_nonmanifold_excluded:
  assumes many: "3 \<le> length (adjacentTriangles g key)"
  shows "case buildEdgesFromGeometry faceNormal angleTo g thresholdAngle of
           Inr edges \<Rightarrow> key \<notin> set edges
         | Inl e \<Rightarrow> attr_position g = None"
proof (cases "buildEdgesFromGeometry faceNormal angleTo g thresholdAngle")
  case (Inl e)
  have "attr_position g = None"
  proof (rule ccontr)
    assume "attr_position g \<noteq> None"
    then obtain pos where "attr_position g = Some pos" by auto
    from buildEdges_present[OF this, of faceNormal angleTo thresholdAngle] Inl show False
      by auto
  qed
  with Inl show ?thesis by simp
next
  case (Inr edges)
  then obtain m where m: "buildEdgeMap g = Inr m"
    and cl: "classifyEntries faceNormal angleTo g thresholdAngle m [] = Inr edges"
    by (auto simp: buildEdgesFromGeometry_def split: sum.splits)
  have "key \<notin> set edges"
  proof
    assume "key \<in> set edges"
    from classifyEntries_sound[OF cl this] obtain d where
      d: "(key, d) \<in> set m" "count d = 1 \<or> count d = 2" by auto
    then have "count d = length (edgeOccurrences g key)"
      by (simp add: buildEdgeMap_entry[OF m])
    with d(2) many adjacent_le_occurrences[of g key] show False by linarith
  qed
  with Inr show ?thesis by simp
qed

theorem buildEdges_nonmanifold_excluded_witness:
  "3 \<le> length (adjacentTriangles fanTriangles (Some 0, Some 1)) \<and>
   (\<exists>edges. buildEdgesFromGeometry sampleNormal sampleAngle fanTriangles 1 = Inr edges \<and>
            (Some 0, Some 1) \<notin> set edges)"
proof -
  have many: "3 \<le> length (adjacentTriangles fanTriangles (Some 0, Some 1))"
    by code_simp
  from buildEdges_nonmanifold_excluded[OF many, of sampleNormal sampleAngle 1]
  show ?thesis using many by (simp add: fanTriangles_edges)
qed


section \<open>Claims about the selection state machine\<close>

subsection \<open>C9: deselecting when nothing is selected\<close>

text \<open>
  C9. On a freshly constructed selection manager \<^verbatim>\<open>deselect()\<close> throws: the constructor
  never assigns \<^verbatim>\<open>this.selection\<close>, and \<^verbatim>\<open>deselect\<close> begins by destructuring it. Where
  the field holds the empty record, \<^verbatim>\<open>deselect\<close> does nothing, and so does
  \<^verbatim>\<open>deselectObject\<close> of a freshly constructed scene manager; once
  \<^verbatim>\<open>clearSelection\<close> has set \<^verbatim>\<open>this.selected\<close> to \<^verbatim>\<open>null\<close>,
  \<^verbatim>\<open>deselectObject\<close> throws too.
\<close>

theorem deselect_before_any_selection:
  "deselect (newSelectionManager sm h) = (Some TypeError, newSelectionManager sm h) \<and>
   deselect (idleSelectionManager sm h) = (None, idleSelectionManager sm h) \<and>
   deselectObject (newSceneSelection mats) = (None, newSceneSelection mats) \<and>
   deselectObject ((newSceneSelection mats)\<lparr>selected := None\<rparr>)
     = (Some TypeError, (newSceneSelection mats)\<lparr>selected := None\<rparr>)"
  by (simp add: deselect_def newSelectionManager_def idleSelectionManager_def emptySelection_def
                deselectObject_def newSceneSelection_def)

subsection \<open>C5: one highlight at a time\<close>



section \<open>Claims about edge picking\<close>

subsection \<open>C4: the closest edge within the threshold\<close>

text \<open>
  C4. No edge pick returns an edge. \<^verbatim>\<open>distanceToEdge\<close> throws for every edge:
  it reads \<^verbatim>\<open>edge.start\<close>, which the index pairs of the analyzer do not have, and for
  an edge given by two points it calls a method that neither the ray nor the hit point
  has. So \<^verbatim>\<open>raycastEdges\<close> returns \<^verbatim>\<open>null\<close> when no object has an edge and throws
  otherwise, at the first edge of the first object that has one; and \<^verbatim>\<open>findClosestEdge\<close>,
  as the class has it, returns \<^verbatim>\<open>null\<close> for an object without edges and throws
  otherwise. In the samples: an object with the analyzer's index pairs, alone or behind
  an object without edges, and an object with two edges given by their end points.
\<close>

theorem edge_pick_throws:
  "distanceToEdge arg edge mw = Inl TypeError \<and>
   raycastEdges ray objs
     = (if concat (map pick_edges objs) = [] then Inr None else Inl TypeError) \<and>
   findClosestEdge point meta = (if pick_edges meta = [] then Inr None else Inl TypeError) \<and>
   raycastEdges ray [analysedObject] = Inl TypeError \<and>
   raycastEdges ray [analysedObject\<lparr>pick_edges := []\<rparr>, analysedObject] = Inl TypeError \<and>
   raycastEdges ray [analysedObject\<lparr>pick_edges := []\<rparr>] = Inr None \<and>
   findClosestEdge 0 analysedObject = Inl TypeError \<and>
   findClosestEdge 0 (analysedObject\<lparr>pick_edges := []\<rparr>) = Inr None \<and>
   raycastEdges ray [segmentObject] = Inl TypeError \<and>
   findClosestEdge 0 segmentObject = Inl TypeError"
proof -
  have d: "distanceToEdge arg edge mw = Inl TypeError"
    by (rule distanceToEdge_throws)
  have r: "raycastEdges ray objs
             = (if concat (map pick_edges objs) = [] then Inr None else Inl TypeError)"
    by (rule raycastEdges_result)
  have f: "findClosestEdge point meta = (if pick_edges meta = [] then Inr None else Inl TypeError)"
    by (simp add: findClosestEdge_def findClosestEdgeLoop_result)
  have s: "raycastEdges ray [analysedObject] = Inl TypeError"
    "raycastEdges ray [analysedObject\<lparr>pick_edges := []\<rparr>, analysedObject] = Inl TypeError"
    "raycastEdges ray [analysedObject\<lparr>pick_edges := []\<rparr>] = Inr None"
    "findClosestEdge 0 analysedObject = Inl TypeError"
    "findClosestEdge 0 (analysedObject\<lparr>pick_edges := []\<rparr>) = Inr None"
    "raycastEdges ray [segmentObject] = Inl TypeError"
    "findClosestEdge 0 segmentObject = Inl TypeError"
    by (simp_all add: raycastEdges_result findClosestEdge_def findClosestEdgeLoop_result
                      segmentObject_def analysedObject_def)
  from d r f s show ?thesis by blast
qed


section \<open>Claims about import and export\<close>

subsection \<open>C7: what an import does to the scene\<close>

text \<open>
  C7. For a document that cannot be parsed, or whose \<^verbatim>\<open>objects\<close> key is missing or not
  an array, \<^verbatim>\<open>importScene\<close> returns \<^verbatim>\<open>false\<close> and leaves the scene manager as it was.
  For a document with an array of elements it returns \<^verbatim>\<open>true\<close>, and what it did to
  the scene is, in this order: for every old object in turn, the mesh removed from the
  scene, its geometry disposed if it has one, and its material disposed (each one of an
  array of materials); and only after all of that, one mesh added to the scene for every
  element of type Box, Sphere or Cylinder. The old meshes are gone from the scene and
  from the \<^verbatim>\<open>objects\<close> map, which is empty before the first element is built. The
  objects afterwards are exactly the new meshes, one for every element of a known type,
  in the document's order, with the element's type, position, rotation and scale (a new
  mesh's values where the element gives none); an element of another type is skipped and
  the elements after it are still imported.
\<close>

theorem importScene_contract:
  "importScene s Unparsable = (False, s) \<and>
   importScene s (Document Missing) = (False, s) \<and>
   importScene s (Document NotArray) = (False, s) \<and>
   fst (importScene s (Document (Objects objs))) = True \<and>
   snd (importScene s (Document (Objects objs))) = fold importObject objs (clearObjects s) \<and>
   objects (clearObjects s) = [] \<and>
   (let s' = snd (importScene s (Document (Objects objs)));
        known = filter (\<lambda>d. od_type d = ''Box'' \<or> od_type d = ''Sphere'' \<or> od_type d = ''Cylinder'') objs;
        created = [next_uuid s..<next_uuid s + length known];
        old = map (\<lambda>(id, meta). meta_mesh meta) (objects s)
    in events s'
         = events s
           @ concat (map (\<lambda>m. [SceneRemove (uuid m)]
                              @ (case mesh_geometry m of
                                   None \<Rightarrow> []
                                 | Some g \<Rightarrow> [GeometryDispose (uuid m)])
                              @ (case mesh_material m of
                                   None \<Rightarrow> []
                                 | Some (Multi ms) \<Rightarrow> map (MaterialDispose (uuid m)) ms
                                 | Some (Single mat) \<Rightarrow> [MaterialDispose (uuid m) mat])) old)
           @ map SceneAdd created \<and>
       scene_children s' = filter (\<lambda>u. u \<notin> set (map uuid old)) (scene_children s) @ created \<and>
       map fst (objects s') = created \<and>
       map (\<lambda>(id, meta). (meta_type meta, mesh_position (meta_mesh meta),
                           mesh_rotation (meta_mesh meta), mesh_scale (meta_mesh meta))) (objects s')
         = map (\<lambda>d. (od_type d,
                      (case od_position d of None \<Rightarrow> (0, 0, 0) | Some p \<Rightarrow> p),
                      (case od_rotation d of None \<Rightarrow> (0, 0, 0, ''XYZ'') | Some r \<Rightarrow> r),
                      (case od_scale d of None \<Rightarrow> (1, 1, 1) | Some sc \<Rightarrow> sc))) known)"
proof -
  have a: "importScene s Unparsable = (False, s)" "importScene s (Document Missing) = (False, s)"
    "importScene s (Document NotArray) = (False, s)"
    by (simp_all add: importScene_def)
  have k: "(\<lambda>d. knownType (od_type d))
             = (\<lambda>d. od_type d = ''Box'' \<or> od_type d = ''Sphere'' \<or> od_type d = ''Cylinder'')"
    by (rule ext) (simp add: knownType_def)
  have t: "(\<lambda>(id, meta). transformOf meta)
             = (\<lambda>(id, meta). (meta_type meta, mesh_position (meta_mesh meta),
                                mesh_rotation (meta_mesh meta), mesh_scale (meta_mesh meta)))"
    by (rule ext) (simp add: transformOf_def case_prod_unfold)
  have i: "importedTransform
             = (\<lambda>d. (od_type d,
                      (case od_position d of None \<Rightarrow> (0, 0, 0) | Some p \<Rightarrow> p),
                      (case od_rotation d of None \<Rightarrow> (0, 0, 0, ''XYZ'') | Some r \<Rightarrow> r),
                      (case od_scale d of None \<Rightarrow> (1, 1, 1) | Some sc \<Rightarrow> sc)))"
    by (rule ext) (simp add: importedTransform_def)
  have d: "concat (map (\<lambda>(id, meta). disposeEvents meta) (objects s))
             = concat (map (\<lambda>m. [SceneRemove (uuid m)]
                              @ (case mesh_geometry m of
                                   None \<Rightarrow> []
                                 | Some g \<Rightarrow> [GeometryDispose (uuid m)])
                              @ (case mesh_material m of
                                   None \<Rightarrow> []
                                 | Some (Multi ms) \<Rightarrow> map (MaterialDispose (uuid m)) ms
                                 | Some (Single mat) \<Rightarrow> [MaterialDispose (uuid m) mat]))
                        (map (\<lambda>(id, meta). meta_mesh meta) (objects s)))"
    by (simp add: disposeEvents_def Let_def o_def case_prod_unfold)
  have c: "set (map uuid (map (\<lambda>(id, meta). meta_mesh meta) (objects s)))
             = set (map (\<lambda>(id, meta). uuid (meta_mesh meta)) (objects s))"
    by (simp add: o_def case_prod_unfold)
  have cl: "objects (clearObjects s) = []"
    "events (clearObjects s) = events s @ concat (map (\<lambda>(id, meta). disposeEvents meta) (objects s))"
    "scene_children (clearObjects s)
       = filter (\<lambda>u. u \<notin> set (map (\<lambda>(id, meta). uuid (meta_mesh meta)) (objects s))) (scene_children s)"
    using clearObjects_result[of s] by blast+
  have im: "fst (importScene s (Document (Objects objs))) = True"
    "snd (importScene s (Document (Objects objs))) = fold importObject objs (clearObjects s)"
    "events (snd (importScene s (Document (Objects objs))))
       = events (clearObjects s)
         @ map SceneAdd [next_uuid s..<next_uuid s + length (filter (\<lambda>d. knownType (od_type d)) objs)]"
    "map fst (objects (snd (importScene s (Document (Objects objs)))))
       = [next_uuid s..<next_uuid s + length (filter (\<lambda>d. knownType (od_type d)) objs)]"
    "scene_children (snd (importScene s (Document (Objects objs))))
       = scene_children (clearObjects s)
         @ [next_uuid s..<next_uuid s + length (filter (\<lambda>d. knownType (od_type d)) objs)]"
    "map (\<lambda>(id, meta). transformOf meta) (objects (snd (importScene s (Document (Objects objs)))))
       = map importedTransform (filter (\<lambda>d. knownType (od_type d)) objs)"
    using importScene_objects[of s objs] by blast+
  show ?thesis
    unfolding Let_def c
    using a cl(1) im(1,2) im(3)[unfolded cl(2) d k] im(4)[unfolded k] im(5)[unfolded cl(3) k]
      im(6)[unfolded t i k]
    by simp
qed

theorem importScene_contract_witness:
  "map (\<lambda>(id, meta). meta_type meta) (objects boxSphereScene) = [''Box'', ''Sphere''] \<and>
   events boxSphereScene = [SceneAdd 0, SceneAdd 1] \<and>
   importScene boxSphereScene (Document NotArray) = (False, boxSphereScene) \<and>
   fst (importScene boxSphereScene mixedDocument) = True \<and>
   events (snd (importScene boxSphereScene mixedDocument))
     = [SceneAdd 0, SceneAdd 1,
        SceneRemove 0, GeometryDispose 0, MaterialDispose 0 (Material 0x8888ff),
        SceneRemove 1, GeometryDispose 1, MaterialDispose 1 (Material 0xff8888),
        SceneAdd 2, SceneAdd 3] \<and>
   scene_children (snd (importScene boxSphereScene mixedDocument)) = [2, 3] \<and>
   map fst (objects (snd (importScene boxSphereScene mixedDocument))) = [2, 3] \<and>
   map (\<lambda>(id, meta). (meta_type meta, mesh_position (meta_mesh meta),
                       mesh_rotation (meta_mesh meta), mesh_scale (meta_mesh meta)))
       (objects (snd (importScene boxSphereScene mixedDocument)))
     = [(''Box'', (0, 0, 0), (0, 0, 0, ''XYZ''), (1, 1, 1)),
        (''Cylinder'', (4, 5, 6), (0, 0, 0, ''XYZ''), (1, 1, 1))]"
proof -
  have bs: "boxSphereScene =
      \<lparr>objects =
         [(0, \<lparr>meta_id = 0,
                meta_mesh = newMesh 0 ''Box'' (1, 2, 3) (BoxGeometry (JNum 2) (JNum 1) (JNum 1))
                              (Material 0x8888ff),
                meta_type = ''Box'',
                meta_params = [(''width'', JNum 2), (''height'', JNum 1), (''depth'', JNum 1)]\<rparr>),
          (1, \<lparr>meta_id = 1,
                meta_mesh = newMesh 1 ''ball'' (0, 0, 0) (SphereGeometry (JNum 1) (JNum 32) (JNum 16))
                              (Material 0xff8888),
                meta_type = ''Sphere'',
                meta_params = [(''radius'', JNum 1), (''widthSegments'', JNum 32),
                               (''heightSegments'', JNum 16)]\<rparr>)],
       scene_children = [0, 1],
       events = [SceneAdd 0, SceneAdd 1],
       next_uuid = 2\<rparr>"
    by (simp add: boxSphereScene_def addBox_def addSphere_def register_def sceneAdd_def
                  newSceneManager_def param_def Let_def newMesh_def)
  note th = importScene_contract[of boxSphereScene
              "[plainElement ''Box'', plainElement ''Torus'',
                (plainElement ''Cylinder'')\<lparr>od_position := Some (4, 5, 6)\<rparr>]",
              unfolded Let_def]
  note rest = th[THEN conjunct2, THEN conjunct2, THEN conjunct2]
  note body = rest[THEN conjunct2, THEN conjunct2, THEN conjunct2]
  note ev = body[THEN conjunct1]
  note ch = body[THEN conjunct2, THEN conjunct1]
  note ks = body[THEN conjunct2, THEN conjunct2, THEN conjunct1]
  note tr = body[THEN conjunct2, THEN conjunct2, THEN conjunct2]
  have c1: "importScene boxSphereScene (Document NotArray) = (False, boxSphereScene)"
    by (rule th[THEN conjunct2, THEN conjunct2, THEN conjunct1])
  have c2: "fst (importScene boxSphereScene mixedDocument) = True"
    unfolding mixedDocument_def by (rule rest[THEN conjunct1])
  have c3: "events (snd (importScene boxSphereScene mixedDocument))
       = [SceneAdd 0, SceneAdd 1,
          SceneRemove 0, GeometryDispose 0, MaterialDispose 0 (Material 0x8888ff),
          SceneRemove 1, GeometryDispose 1, MaterialDispose 1 (Material 0xff8888),
          SceneAdd 2, SceneAdd 3]"
    unfolding mixedDocument_def ev
    by (simp add: bs plainElement_def newMesh_def)
  have c4: "scene_children (snd (importScene boxSphereScene mixedDocument)) = [2, 3]"
    unfolding mixedDocument_def ch
    by (simp add: bs plainElement_def newMesh_def)
  have c5: "map fst (objects (snd (importScene boxSphereScene mixedDocument))) = [2, 3]"
    unfolding mixedDocument_def ks
    by (simp add: bs plainElement_def)
  have c6: "map (\<lambda>(id, meta). (meta_type meta, mesh_position (meta_mesh meta),
                          mesh_rotation (meta_mesh meta), mesh_scale (meta_mesh meta)))
         (objects (snd (importScene boxSphereScene mixedDocument)))
       = [(''Box'', (0, 0, 0), (0, 0, 0, ''XYZ''), (1, 1, 1)),
          (''Cylinder'', (4, 5, 6), (0, 0, 0, ''XYZ''), (1, 1, 1))]"
    unfolding mixedDocument_def tr
    by (simp add: plainElement_def)
  have t: "map (\<lambda>(id, meta). meta_type meta) (objects boxSphereScene) = [''Box'', ''Sphere'']"
    "events boxSphereScene = [SceneAdd 0, SceneAdd 1]"
    by (simp_all add: bs)
  from t c1 c2 c3 c4 c5 c6 show ?thesis by blast
qed

subsection \<open>C6: export followed by import\<close>

text \<open>
  C6. A scene with one object made by \<^verbatim>\<open>addExtrude\<close> (type Extruded) and the scene
  with one rectangle drawn in sketch mode (type Rectangle): \<^verbatim>\<open>exportScene\<close> writes the
  object, and \<^verbatim>\<open>importScene\<close> of that document returns \<^verbatim>\<open>true\<close> and leaves a scene
  without objects, because the \<^verbatim>\<open>switch\<close> of the import has no case for these types.
\<close>

theorem roundtrip_drops_extruded_and_sketched:
  "map (\<lambda>(id, meta). meta_type meta) (objects extrudedScene) = [''Extruded''] \<and>
   fst (importScene extrudedScene (exportScene extrudedScene)) = True \<and>
   objects (snd (importScene extrudedScene (exportScene extrudedScene))) = [] \<and>
   map (\<lambda>(id, meta). meta_type meta) (objects sketchedScene) = [''Rectangle''] \<and>
   fst (importScene sketchedScene (exportScene sketchedScene)) = True \<and>
   objects (snd (importScene sketchedScene (exportScene sketchedScene))) = []"
proof -
  have e: "map (\<lambda>(id, meta). meta_type meta) (objects extrudedScene) = [''Extruded'']
         \<and> fst (importScene extrudedScene (exportScene extrudedScene)) = True
         \<and> objects (snd (importScene extrudedScene (exportScene extrudedScene))) = []"
    by (simp add: extrudedScene_def squareShape_def addExtrude_def register_def sceneAdd_def
                  newMesh_def newSceneManager_def param_def exportScene_def exportObject_def
                  importScene_def clearObjects_def discardObject_def disposeEvents_def
                  importObject_def Let_def)
  have k: "map (\<lambda>(id, meta). meta_type meta) (objects sketchedScene) = [''Rectangle'']
         \<and> fst (importScene sketchedScene (exportScene sketchedScene)) = True
         \<and> objects (snd (importScene sketchedScene (exportScene sketchedScene))) = []"
    by (simp add: sketchedScene_def armedSketch_def enable_def newSketchMode_def onPointerDown_def
          onPointerUp_def getIntersectionPoint_def snapToGrid_def round_def createShape_def
          createRectangle_def extrudeShape_def addObject_def clearPreview_def sceneAdd_def
          newMesh_def newSceneManager_def exportScene_def exportObject_def importScene_def
          clearObjects_def discardObject_def disposeEvents_def importObject_def Let_def)
  from e k show ?thesis by blast
qed


section \<open>Claims about sketch mode\<close>

subsection \<open>C8: a rectangle drag\<close>

text \<open>
  C8. In rectangle mode with the grid size 0.5 the constructor sets, a drag from the
  ground-plane point \<open>(px, pz)\<close> to \<open>(qx, qz)\<close>: pointer-down stores as start point the
  point with both coordinates snapped, \<open>sx = round (px / 0.5) * 0.5\<close> and
  \<open>sz = round (pz / 0.5) * 0.5\<close>, where \<open>round\<close> is to the nearest integer and a half goes
  up; pointer-up snaps the end point the same way to \<open>(ex, ez)\<close>. With the width
  \<open>w = \<bar>ex - sx\<bar>\<close> and the depth \<open>d = \<bar>ez - sz\<bar>\<close>: if either is below 0.1, the scene manager
  is left as it was; otherwise exactly one entry is appended to the \<^verbatim>\<open>objects\<close> map,
  of type Rectangle, whose mesh is the extrusion (depth 1, no bevel) of the closed path
  \<open>(0, 0), (w, 0), (w, d), (0, d), (0, 0)\<close> turned onto the ground plane and placed at
  \<open>(min sx ex, 0, min sz ez)\<close>, so that its footprint is \<open>w\<close> by \<open>d\<close>; that mesh is added
  to the scene once. In both cases the drag is over (no start point is left) and the mode
  is still rectangle mode. No step of the model can throw. The identifier the library
  gives the new mesh is assumed not to be in use.
\<close>

theorem sketch_rectangle_drag:
  assumes mode: "sk_mode sk = RECTANGLE"
    and grid: "gridSize sk = 1 / 2"
    and fresh: "uuidFresh (sk_manager sk)"
  shows "gridSize (enable (newSketchMode mgr) RECTANGLE) = 1 / 2 \<and>
         (let sx = real_of_int (round (px / (1 / 2))) * (1 / 2);
              sz = real_of_int (round (pz / (1 / 2))) * (1 / 2);
              ex = real_of_int (round (qx / (1 / 2))) * (1 / 2);
              ez = real_of_int (round (qz / (1 / 2))) * (1 / 2);
              w = \<bar>ex - sx\<bar>;
              d = \<bar>ez - sz\<bar>;
              n = next_uuid (sk_manager sk);
              sk1 = onPointerDown sk (Some (px, py, pz));
              sk2 = onPointerUp sk1 (Some (qx, qy, qz))
          in startPoint sk1 = Some (sx, py, sz) \<and>
             sk_manager sk1 = sk_manager sk \<and>
             startPoint sk2 = None \<and>
             sk_mode sk2 = RECTANGLE \<and>
             (if w < 1 / 10 \<or> d < 1 / 10
              then sk_manager sk2 = sk_manager sk
              else objects (sk_manager sk2)
                     = objects (sk_manager sk)
                       @ [(n, \<lparr>meta_id = n,
                                meta_mesh =
                                  \<lparr>uuid = n, mesh_name = [],
                                   mesh_position = (min sx ex, 0, min sz ez),
                                   mesh_rotation = (0, 0, 0, ''XYZ''), mesh_scale = (1, 1, 1),
                                   mesh_geometry =
                                     Some (RotatedToGround (ExtrudeGeometry
                                       (Path [(0, 0), (w, 0), (w, d), (0, d), (0, 0)])
                                       [(''depth'', JNum 1), (''bevelEnabled'', JBool False)])),
                                   mesh_material = Some (Single (Material 0x8888ff)),
                                   userData = []\<rparr>,
                                meta_type = ''Rectangle'', meta_params = []\<rparr>)] \<and>
                   scene_children (sk_manager sk2) = scene_children (sk_manager sk) @ [n] \<and>
                   events (sk_manager sk2) = events (sk_manager sk) @ [SceneAdd n] \<and>
                   objectFootprint (snd (last (objects (sk_manager sk2)))) = Some (w, d)))"
proof -
  define sx where "sx = real_of_int (round (px / (1 / 2))) * (1 / 2)"
  define sz where "sz = real_of_int (round (pz / (1 / 2))) * (1 / 2)"
  define ex where "ex = real_of_int (round (qx / (1 / 2))) * (1 / 2)"
  define ez where "ez = real_of_int (round (qz / (1 / 2))) * (1 / 2)"
  define sk1 where "sk1 = onPointerDown sk (Some (px, py, pz))"
  define sk2 where "sk2 = onPointerUp sk1 (Some (qx, qy, qz))"
  have g: "gridSize (enable (newSketchMode mgr) RECTANGLE) = 1 / 2"
    by (simp add: enable_def newSketchMode_def)
  have sk1: "sk1 = sk\<lparr>startPoint := Some (sx, py, sz)\<rparr>"
    using mode
    by (simp add: sk1_def onPointerDown_def getIntersectionPoint_def snapToGrid_def sx_def sz_def grid)
  have up: "sk2 = (clearPreview (createRectangle sk1 (ex, qy, ez)))\<lparr>startPoint := None\<rparr>"
    using mode
    by (simp add: sk2_def sk1 onPointerUp_def getIntersectionPoint_def snapToGrid_def createShape_def
                  ex_def ez_def grid)
  have st: "startPoint sk1 = Some (sx, py, sz)" and fr: "uuidFresh (sk_manager sk1)"
    and mg: "sk_manager sk1 = sk_manager sk" and md: "sk_mode sk1 = RECTANGLE"
    using fresh mode by (simp_all add: sk1)
  have cm: "sk_mode (createRectangle sk1 (ex, qy, ez)) = RECTANGLE"
    using md st by (simp add: createRectangle_def extrudeShape_def Let_def)
  have a: "startPoint sk2 = None" "sk_mode sk2 = RECTANGLE"
    using cm by (simp_all add: up clearPreview_def)
  have m2: "sk_manager sk2 = sk_manager (createRectangle sk1 (ex, qy, ez))"
    by (simp add: up clearPreview_def)
  note cr = createRectangle_result[OF st fr md, of ex ez qy, unfolded mg]
  have b: "if \<bar>ex - sx\<bar> < 1 / 10 \<or> \<bar>ez - sz\<bar> < 1 / 10
        then sk_manager sk2 = sk_manager sk
        else objects (sk_manager sk2)
               = objects (sk_manager sk)
                 @ [(next_uuid (sk_manager sk),
                     \<lparr>meta_id = next_uuid (sk_manager sk),
                      meta_mesh =
                        \<lparr>uuid = next_uuid (sk_manager sk), mesh_name = [],
                         mesh_position = (min sx ex, 0, min sz ez),
                         mesh_rotation = (0, 0, 0, ''XYZ''), mesh_scale = (1, 1, 1),
                         mesh_geometry =
                           Some (RotatedToGround (ExtrudeGeometry
                             (Path [(0, 0), (\<bar>ex - sx\<bar>, 0), (\<bar>ex - sx\<bar>, \<bar>ez - sz\<bar>),
                                    (0, \<bar>ez - sz\<bar>), (0, 0)])
                             [(''depth'', JNum 1), (''bevelEnabled'', JBool False)])),
                         mesh_material = Some (Single (Material 0x8888ff)), userData = []\<rparr>,
                      meta_type = ''Rectangle'', meta_params = []\<rparr>)] \<and>
             scene_children (sk_manager sk2)
               = scene_children (sk_manager sk) @ [next_uuid (sk_manager sk)] \<and>
             events (sk_manager sk2) = events (sk_manager sk) @ [SceneAdd (next_uuid (sk_manager sk))] \<and>
             objectFootprint (snd (last (objects (sk_manager sk2)))) = Some (\<bar>ex - sx\<bar>, \<bar>ez - sz\<bar>)"
  proof (cases "\<bar>ex - sx\<bar> < 1 / 10 \<or> \<bar>ez - sz\<bar> < 1 / 10")
    case True
    with cr have "createRectangle sk1 (ex, qy, ez) = sk1" by simp
    with True show ?thesis by (simp add: m2 mg)
  next
    case False
    with cr have c: "objects (sk_manager (createRectangle sk1 (ex, qy, ez)))
               = objects (sk_manager sk)
                 @ [(next_uuid (sk_manager sk),
                     \<lparr>meta_id = next_uuid (sk_manager sk),
                      meta_mesh =
                        \<lparr>uuid = next_uuid (sk_manager sk), mesh_name = [],
                         mesh_position = (min sx ex, 0, min sz ez),
                         mesh_rotation = (0, 0, 0, ''XYZ''), mesh_scale = (1, 1, 1),
                         mesh_geometry =
                           Some (RotatedToGround (ExtrudeGeometry
                             (Path [(0, 0), (\<bar>ex - sx\<bar>, 0), (\<bar>ex - sx\<bar>, \<bar>ez - sz\<bar>),
                                    (0, \<bar>ez - sz\<bar>), (0, 0)])
                             [(''depth'', JNum 1), (''bevelEnabled'', JBool False)])),
                         mesh_material = Some (Single (Material 0x8888ff)), userData = []\<rparr>,
                      meta_type = ''Rectangle'', meta_params = []\<rparr>)]"
      "scene_children (sk_manager (createRectangle sk1 (ex, qy, ez)))
               = scene_children (sk_manager sk) @ [next_uuid (sk_manager sk)]"
      "events (sk_manager (createRectangle sk1 (ex, qy, ez)))
               = events (sk_manager sk) @ [SceneAdd (next_uuid (sk_manager sk))]"
      by simp_all
    have f: "objectFootprint (snd (last (objects (sk_manager sk2)))) = Some (\<bar>ex - sx\<bar>, \<bar>ez - sz\<bar>)"
      unfolding m2 c(1) by (simp add: objectFootprint_def extent_rect extent_rect2)
    from False c f show ?thesis by (simp add: m2)
  qed
  from g st mg a b show ?thesis
    unfolding Let_def sx_def[symmetric] sz_def[symmetric] ex_def[symmetric] ez_def[symmetric]
      sk1_def[symmetric] sk2_def[symmetric]
    by simp
qed

theorem sketch_rectangle_drag_witness:
  "sk_mode armedSketch = RECTANGLE \<and> gridSize armedSketch = 1 / 2 \<and>
   uuidFresh (sk_manager armedSketch) \<and>
   objects (sk_manager armedSketch) = [] \<and>
   map (\<lambda>(id, meta). (id, meta_type meta, mesh_position (meta_mesh meta), mesh_geometry (meta_mesh meta),
                       objectFootprint meta))
       (objects (sk_manager (onPointerUp (onPointerDown armedSketch (Some (0, 0, 0))) (Some (2, 0, 3)))))
     = [(0, ''Rectangle'', (0, 0, 0),
         Some (RotatedToGround (ExtrudeGeometry (Path [(0, 0), (2, 0), (2, 3), (0, 3), (0, 0)])
                 [(''depth'', JNum 1), (''bevelEnabled'', JBool False)])),
         Some (2, 3))] \<and>
   sk_manager (onPointerUp (onPointerDown armedSketch (Some (0, 0, 0))) (Some (5 / 100, 0, 5 / 100)))
     = sk_manager armedSketch \<and>
   startPoint (onPointerDown armedSketch (Some (1 / 4, 0, - 1 / 4))) = Some (1 / 2, 0, 0) \<and>
   startPoint (onPointerDown armedSketch (Some (21 / 10, 0, 28 / 10))) = Some (2, 0, 3) \<and>
   map (\<lambda>(id, meta). (id, meta_type meta, mesh_position (meta_mesh meta), mesh_geometry (meta_mesh meta),
                       objectFootprint meta))
       (objects (sk_manager (onPointerUp (onPointerDown armedSketch (Some (21 / 10, 0, 28 / 10)))
                                         (Some (2 / 10, 0, 3 / 10)))))
     = [(0, ''Rectangle'', (0, 0, 1 / 2),
         Some (RotatedToGround (ExtrudeGeometry (Path [(0, 0), (2, 0), (2, 5 / 2), (0, 5 / 2), (0, 0)])
                 [(''depth'', JNum 1), (''bevelEnabled'', JBool False)])),
         Some (2, 5 / 2))]"
proof -
  have mode: "sk_mode armedSketch = RECTANGLE" and grid: "gridSize armedSketch = 1 / 2"
    and fresh: "uuidFresh (sk_manager armedSketch)"
    and empty: "objects (sk_manager armedSketch) = []"
    and nxt: "next_uuid (sk_manager armedSketch) = 0"
    by (simp_all add: armedSketch_def enable_def newSketchMode_def newSceneManager_def uuidFresh_def)
  have r: "round (4 :: real) = 4" "round (6 :: real) = 6" "round (0 :: real) = 0"
    "round (1 / 10 :: real) = 0" "round (1 / 2 :: real) = 1" "round (- (1 / 2) :: real) = 0"
    "round (21 / 5 :: real) = 4" "round (28 / 5 :: real) = 6"
    "round (2 / 5 :: real) = 0" "round (3 / 5 :: real) = 1"
    by (simp_all add: round_def)
  note d1 = sketch_rectangle_drag[OF mode grid fresh, of undefined 0 0 2 3 0 0,
              THEN conjunct2, unfolded Let_def]
  note d2 = sketch_rectangle_drag[OF mode grid fresh, of undefined 0 0 "5 / 100" "5 / 100" 0 0,
              THEN conjunct2, unfolded Let_def]
  note d3 = sketch_rectangle_drag[OF mode grid fresh, of undefined "1 / 4" "- 1 / 4" 0 0 0 0,
              THEN conjunct2, unfolded Let_def]
  note d4 = sketch_rectangle_drag[OF mode grid fresh, of undefined "21 / 10" "28 / 10" "2 / 10" "3 / 10" 0 0,
              THEN conjunct2, unfolded Let_def]
  note tl = conjunct2[THEN conjunct2, THEN conjunct2, THEN conjunct2]
  have big: "map (\<lambda>(id, meta). (id, meta_type meta, mesh_position (meta_mesh meta),
                                 mesh_geometry (meta_mesh meta), objectFootprint meta))
       (objects (sk_manager (onPointerUp (onPointerDown armedSketch (Some (0, 0, 0))) (Some (2, 0, 3)))))
     = [(0, ''Rectangle'', (0, 0, 0),
         Some (RotatedToGround (ExtrudeGeometry (Path [(0, 0), (2, 0), (2, 3), (0, 3), (0, 0)])
                 [(''depth'', JNum 1), (''bevelEnabled'', JBool False)])),
         Some (2, 3))]"
    using d1[THEN tl] by (simp add: r empty nxt objectFootprint_def extent_def split: if_splits)
  have small: "sk_manager (onPointerUp (onPointerDown armedSketch (Some (0, 0, 0)))
                                       (Some (5 / 100, 0, 5 / 100))) = sk_manager armedSketch"
    using d2[THEN tl] by (simp add: r split: if_splits)
  have half: "startPoint (onPointerDown armedSketch (Some (1 / 4, 0, - 1 / 4))) = Some (1 / 2, 0, 0)"
    using d3[THEN conjunct1] by (simp add: r)
  have off: "startPoint (onPointerDown armedSketch (Some (21 / 10, 0, 28 / 10))) = Some (2, 0, 3)"
    using d4[THEN conjunct1] by (simp add: r)
  have rev: "map (\<lambda>(id, meta). (id, meta_type meta, mesh_position (meta_mesh meta),
                                 mesh_geometry (meta_mesh meta), objectFootprint meta))
       (objects (sk_manager (onPointerUp (onPointerDown armedSketch (Some (21 / 10, 0, 28 / 10)))
                                         (Some (2 / 10, 0, 3 / 10)))))
     = [(0, ''Rectangle'', (0, 0, 1 / 2),
         Some (RotatedToGround (ExtrudeGeometry (Path [(0, 0), (2, 0), (2, 5 / 2), (0, 5 / 2), (0, 0)])
                 [(''depth'', JNum 1), (''bevelEnabled'', JBool False)])),
         Some (2, 5 / 2))]"
    using d4[THEN tl] by (simp add: r empty nxt objectFootprint_def extent_def split: if_splits)
  from mode grid fresh empty big small half off rev show ?thesis by blast
qed

end
